theory Spec2Isabelle
  imports Complex_Main "HOL-Library.Sublist"
begin

chapter \<open>The travel planner's retrieval core\<close>

text \<open>
  A shallow embedding of the retrieval subsystem: the vector store
  (\<^verbatim>\<open>src/retrievers/vector_store.py\<close>), the per-category retrievers and their
  coordinator (\<^verbatim>\<open>src/retrievers/knowledge_retrievers.py\<close>), the workflow nodes
  (\<^verbatim>\<open>src/graph/nodes.py\<close>) and the planning graph (\<^verbatim>\<open>src/graph/workflow.py\<close>).
  Python functions are HOL functions; an exception is a value \<open>Inl e\<close> of a sum type;
  an object that a method mutates is passed in and returned.
\<close>

section \<open>Exceptions and list indexing\<close>

datatype error =
    AssertionError
  | ValueError
  | IndexError
  | KeyError
  | RuntimeError
  | FileNotFoundError
  | JSONDecodeError
  | TypeError
  | AttributeError
  | InvalidUpdateError
  | GraphRecursionError

text \<open>
  \<^verbatim>\<open>xs[i]\<close> on a Python list: an index from \<open>-len(xs)\<close> to \<open>-1\<close> counts from the end,
  anything else outside \<open>0 .. len(xs) - 1\<close> raises \<^verbatim>\<open>IndexError\<close>.
\<close>

definition py_getitem :: "'a list \<Rightarrow> int \<Rightarrow> error + 'a" where
  "py_getitem xs i =
     (if 0 \<le> i \<and> i < int (length xs) then Inr (xs ! nat i)
      else if i < 0 \<and> - int (length xs) \<le> i then Inr (xs ! nat (int (length xs) + i))
      else Inl IndexError)"

section \<open>The vector store (vector\_store.py)\<close>

subsection \<open>Documents and their metadata\<close>

text \<open>
  A metadata dictionary holds what the ingestion script stores for an attraction or a
  food place, and what the itinerary filter reads. Every key is optional:
  \<^verbatim>\<open>add_documents\<close> defaults a document's metadata to \<^verbatim>\<open>{}\<close>, and each filter reads
  a key with \<^verbatim>\<open>metadata.get(key, default)\<close>. A field \<open>None\<close> is an absent key.
\<close>

record metadata =
  md_admission_fee :: "real option"
  md_category :: "string option"
  md_tags :: "string list option"
  md_dietary_options :: "string list option"
  md_price_range :: "string option"
  md_cuisine :: "string list option"
  md_destination :: "string option"
  md_duration_days :: "int option"

definition empty_metadata :: metadata where
  "empty_metadata =
     \<lparr>md_admission_fee = None, md_category = None, md_tags = None,
      md_dietary_options = None, md_price_range = None, md_cuisine = None,
      md_destination = None, md_duration_days = None\<rparr>"

text \<open>A search result: the dictionary with the keys \<^verbatim>\<open>text\<close>, \<^verbatim>\<open>metadata\<close>, \<^verbatim>\<open>score\<close>.\<close>

record document =
  doc_text :: string
  doc_metadata :: metadata
  doc_score :: real

subsection \<open>The exact index of the FAISS library\<close>

text \<open>
  \<^verbatim>\<open>faiss.IndexFlatL2(d)\<close> is a library object. Its contract, as the calls of
  \<^verbatim>\<open>vector_store.py\<close> rely on it: it keeps the added vectors in insertion order;
  \<^verbatim>\<open>add\<close> takes an \<open>n \<times> d\<close> array; \<^verbatim>\<open>search(x, k)\<close> asserts that the query has \<open>d\<close>
  columns and that \<open>k > 0\<close>, and returns exactly \<open>k\<close> labels with their squared
  Euclidean distances, nearest first, equal distances by ascending label. When the index
  holds fewer than \<open>k\<close> vectors the missing places carry the label \<open>-1\<close> and the largest
  float (\<^verbatim>\<open>3.4028235e+38\<close>) as distance. Numbers are modelled as exact reals.
\<close>

record IndexFlatL2 =
  ix_d :: nat
  ix_xb :: "real list list"

definition FLT_MAX :: real where
  "FLT_MAX = 340282346638528859811704183484516925440"

definition fvec_L2sqr :: "real list \<Rightarrow> real list \<Rightarrow> real" where
  "fvec_L2sqr x y = sum_list (map (\<lambda>(a, b). (a - b)\<^sup>2) (zip x y))"

text \<open>
  \<^verbatim>\<open>index.add(np.array(embeddings).astype('float32'))\<close>: an empty list gives an array
  of shape \<open>(0,)\<close> that has no second axis, rows of different lengths give no
  rectangular array (both \<^verbatim>\<open>ValueError\<close>), and a width other than \<open>d\<close> fails the
  library's assertion.
\<close>

definition IndexFlatL2_add :: "IndexFlatL2 \<Rightarrow> real list list \<Rightarrow> error + IndexFlatL2" where
  "IndexFlatL2_add ix xs =
     (if xs = [] then Inl ValueError
      else if list_all (\<lambda>x. length x = length (hd xs)) xs then
        (if length (hd xs) = ix_d ix then Inr (ix\<lparr>ix_xb := ix_xb ix @ xs\<rparr>)
         else Inl AssertionError)
      else Inl ValueError)"

definition IndexFlatL2_search ::
  "IndexFlatL2 \<Rightarrow> real list \<Rightarrow> int \<Rightarrow> error + (int \<times> real) list" where
  "IndexFlatL2_search ix q k =
     (if length q = ix_d ix then
        (if 0 < k then
           (let scored = zip (map int [0..<length (ix_xb ix)]) (map (fvec_L2sqr q) (ix_xb ix));
                nearest = take (nat k) (sort_key snd scored)
            in Inr (nearest @ replicate (nat k - length nearest) (- 1, FLT_MAX)))
         else Inl AssertionError)
      else Inl AssertionError)"

subsection \<open>FAISSVectorStore\<close>

record FAISSVectorStore =
  dimension :: nat
  index :: IndexFlatL2
  texts :: "string list"
  metadatas :: "metadata list"

definition FAISSVectorStore_init :: "nat \<Rightarrow> FAISSVectorStore" where
  "FAISSVectorStore_init dm =
     \<lparr>dimension = dm, index = \<lparr>ix_d = dm, ix_xb = []\<rparr>, texts = [], metadatas = []\<rparr>"

text \<open>
  \<^verbatim>\<open>add_documents\<close>: the index is extended first, so a failing \<^verbatim>\<open>index.add\<close> leaves
  the store as it was. The three lengths are not compared.
\<close>

definition add_documents ::
  "FAISSVectorStore \<Rightarrow> string list \<Rightarrow> real list list \<Rightarrow> metadata list option
     \<Rightarrow> error + FAISSVectorStore" where
  "add_documents s txts embeddings mds =
     (let mds' = (case mds of None \<Rightarrow> map (\<lambda>_. empty_metadata) txts | Some ms \<Rightarrow> ms)
      in case IndexFlatL2_add (index s) embeddings of
           Inl e \<Rightarrow> Inl e
         | Inr ix \<Rightarrow>
             Inr (s\<lparr>index := ix, texts := texts s @ txts, metadatas := metadatas s @ mds'\<rparr>))"

text \<open>
  The loop of \<^verbatim>\<open>similarity_search\<close> over \<^verbatim>\<open>zip(indices[0], distances[0])\<close>:
  a hit is kept when \<^verbatim>\<open>idx < len(self.texts)\<close>, and then \<^verbatim>\<open>self.texts[idx]\<close> and
  \<^verbatim>\<open>self.metadatas[idx]\<close> are Python list reads.
\<close>

fun collect_results ::
  "string list \<Rightarrow> metadata list \<Rightarrow> (int \<times> real) list \<Rightarrow> error + document list" where
  "collect_results ts ms [] = Inr []"
| "collect_results ts ms ((idx, distance) # hits) =
     (if idx < int (length ts) then
        (case py_getitem ts idx of
           Inl e \<Rightarrow> Inl e
         | Inr t \<Rightarrow>
             (case py_getitem ms idx of
                Inl e \<Rightarrow> Inl e
              | Inr m \<Rightarrow>
                  (case collect_results ts ms hits of
                     Inl e \<Rightarrow> Inl e
                   | Inr rs \<Rightarrow>
                       Inr (\<lparr>doc_text = t, doc_metadata = m,
                             doc_score = 1 / (1 + distance)\<rparr> # rs))))
      else collect_results ts ms hits)"

definition similarity_search ::
  "FAISSVectorStore \<Rightarrow> real list \<Rightarrow> int \<Rightarrow> error + document list" where
  "similarity_search s query_embedding k =
     (case IndexFlatL2_search (index s) query_embedding k of
        Inl e \<Rightarrow> Inl e
      | Inr hits \<Rightarrow> collect_results (texts s) (metadatas s) hits)"

section \<open>The request types (src/models)\<close>

text \<open>
  Modelled from the spec: the module \<^verbatim>\<open>src/models\<close> (\<^verbatim>\<open>UserPreferences\<close>,
  \<^verbatim>\<open>BudgetLevel\<close>, \<^verbatim>\<open>DietaryRestriction\<close>) is imported by the sources but is not among
  them. The types follow section 3 of the specification and the constructor calls in
  \<^verbatim>\<open>main.py\<close> and \<^verbatim>\<open>examples/basic_planner.py\<close>: the budget tiers are built from
  the strings \<^verbatim>\<open>budget\<close>, \<^verbatim>\<open>moderate\<close>, \<^verbatim>\<open>luxury\<close>; a dietary restriction is a
  string-valued enumeration member, represented by its value, so that
  \<^verbatim>\<open>opt in available_options\<close> compares it with the strings of the metadata.
\<close>

datatype BudgetLevel = BUDGET | MODERATE | LUXURY

fun BudgetLevel_value :: "BudgetLevel \<Rightarrow> string" where
  "BudgetLevel_value BUDGET = ''budget''"
| "BudgetLevel_value MODERATE = ''moderate''"
| "BudgetLevel_value LUXURY = ''luxury''"

type_synonym DietaryRestriction = string

definition VEGETARIAN :: DietaryRestriction where
  "VEGETARIAN = ''vegetarian''"

text \<open>
  \<^verbatim>\<open>datetime\<close> of the standard library: the proleptic Gregorian ordinal of a date and
  the \<^verbatim>\<open>days\<close> of a difference, which the library normalises so that the remaining
  seconds and microseconds are not negative.
\<close>

record datetime =
  dt_year :: int
  dt_month :: int
  dt_day :: int
  dt_hour :: int
  dt_minute :: int
  dt_second :: int
  dt_microsecond :: int

definition is_leap :: "int \<Rightarrow> bool" where
  "is_leap y = (y mod 4 = 0 \<and> (y mod 400 = 0 \<or> y mod 100 \<noteq> 0))"

definition days_before_year :: "int \<Rightarrow> int" where
  "days_before_year year = (let y = year - 1 in y * 365 + y div 4 - y div 100 + y div 400)"

definition DAYS_BEFORE_MONTH :: "int list" where
  "DAYS_BEFORE_MONTH = [0, 31, 59, 90, 120, 151, 181, 212, 243, 273, 304, 334]"

definition days_before_month :: "int \<Rightarrow> int \<Rightarrow> int" where
  "days_before_month year month =
     DAYS_BEFORE_MONTH ! nat (month - 1) + (if 2 < month \<and> is_leap year then 1 else 0)"

definition toordinal :: "datetime \<Rightarrow> int" where
  "toordinal t = days_before_year (dt_year t) + days_before_month (dt_year t) (dt_month t) + dt_day t"

definition timedelta_days :: "datetime \<Rightarrow> datetime \<Rightarrow> int" where
  "timedelta_days a b =
     (let days = toordinal a - toordinal b;
          secs = (dt_second a + dt_minute a * 60 + dt_hour a * 3600)
               - (dt_second b + dt_minute b * 60 + dt_hour b * 3600);
          us = dt_microsecond a - dt_microsecond b
      in ((days * 86400 + secs) * 1000000 + us) div (86400 * 1000000))"

definition midnight :: "int \<Rightarrow> int \<Rightarrow> int \<Rightarrow> datetime" where
  "midnight y m dd =
     \<lparr>dt_year = y, dt_month = m, dt_day = dd, dt_hour = 0, dt_minute = 0, dt_second = 0,
      dt_microsecond = 0\<rparr>"

record UserPreferences =
  destinations :: "string list"
  start_date :: datetime
  end_date :: datetime
  budget_level :: BudgetLevel
  dietary_restrictions :: "DietaryRestriction list"
  interests :: "string list"
  avoid :: "string list"
  pace :: string
  walking_preference :: bool
  group_type :: "string option"

text \<open>The expression \<^verbatim>\<open>(prefs.end_date - prefs.start_date).days + 1\<close>.\<close>

definition duration_of :: "UserPreferences \<Rightarrow> int" where
  "duration_of prefs = timedelta_days (end_date prefs) (start_date prefs) + 1"

section \<open>String helpers\<close>

text \<open>\<^verbatim>\<open>sep.join(xs)\<close> and \<^verbatim>\<open>str(n)\<close> for an integer.\<close>

fun join :: "string \<Rightarrow> string list \<Rightarrow> string" where
  "join sep [] = []"
| "join sep [x] = x"
| "join sep (x # y # ys) = x @ sep @ join sep (y # ys)"

fun str_nat :: "nat \<Rightarrow> string" where
  "str_nat n =
     (if n < 10 then [''0123456789'' ! n]
      else str_nat (n div 10) @ [''0123456789'' ! (n mod 10)])"

definition str_int :: "int \<Rightarrow> string" where
  "str_int i = (if i < 0 then ''-'' @ str_nat (nat (- i)) else str_nat (nat i))"

text \<open>
  The euro sign is one code point in Python and three bytes here (UTF-8); equality of
  price bands is the same in both readings.
\<close>

definition euro :: string where
  "euro = [CHR 0xE2, CHR 0x82, CHR 0xAC]"

section \<open>The retrievers (knowledge\_retrievers.py)\<close>

datatype KnowledgeSource = ATTRACTIONS | FOOD | TRANSPORT | TIPS | ITINERARIES

fun KnowledgeSource_value :: "KnowledgeSource \<Rightarrow> string" where
  "KnowledgeSource_value ATTRACTIONS = ''attractions''"
| "KnowledgeSource_value FOOD = ''food''"
| "KnowledgeSource_value TRANSPORT = ''transport''"
| "KnowledgeSource_value TIPS = ''tips''"
| "KnowledgeSource_value ITINERARIES = ''itineraries''"

subsection \<open>Filter records\<close>

text \<open>
  A filter record is the dictionary \<^verbatim>\<open>filters\<close> of \<^verbatim>\<open>_apply_filters\<close>, with the keys
  the three overriding methods test with \<^verbatim>\<open>"key" in filters\<close>. A field \<open>None\<close> is an
  absent key; the record with every key absent is the empty dictionary.
\<close>

record filters =
  f_max_price :: "real option"
  f_categories :: "string list option"
  f_required_tags :: "string list option"
  f_excluded_tags :: "string list option"
  f_dietary_restrictions :: "DietaryRestriction list option"
  f_budget_level :: "BudgetLevel option"
  f_cuisines :: "string list option"
  f_destination :: "string option"
  f_duration_days :: "int option"

definition no_filters :: filters where
  "no_filters =
     \<lparr>f_max_price = None, f_categories = None, f_required_tags = None,
      f_excluded_tags = None, f_dietary_restrictions = None, f_budget_level = None,
      f_cuisines = None, f_destination = None, f_duration_days = None\<rparr>"

subsection \<open>AttractionRetriever.\_apply\_filters\<close>

text \<open>
  Each test of the loop body is one predicate that says when the candidate is skipped
  (\<^verbatim>\<open>continue\<close>); a candidate is appended when no test skips it.
\<close>

definition exceeds_max_price :: "filters \<Rightarrow> metadata \<Rightarrow> bool" where
  "exceeds_max_price f m =
     (case f_max_price f of
        None \<Rightarrow> False
      | Some bound \<Rightarrow> (case md_admission_fee m of None \<Rightarrow> 0 | Some fee \<Rightarrow> fee) > bound)"

definition outside_categories :: "filters \<Rightarrow> metadata \<Rightarrow> bool" where
  "outside_categories f m =
     (case f_categories f of
        None \<Rightarrow> False
      | Some cats \<Rightarrow> (case md_category m of None \<Rightarrow> True | Some c \<Rightarrow> c \<notin> set cats))"

definition tags_of :: "metadata \<Rightarrow> string list" where
  "tags_of m = (case md_tags m of None \<Rightarrow> [] | Some ts \<Rightarrow> ts)"

definition lacks_required_tag :: "filters \<Rightarrow> metadata \<Rightarrow> bool" where
  "lacks_required_tag f m =
     (case f_required_tags f of
        None \<Rightarrow> False
      | Some required \<Rightarrow> \<not> list_all (\<lambda>tag. tag \<in> set (tags_of m)) required)"

definition has_excluded_tag :: "filters \<Rightarrow> metadata \<Rightarrow> bool" where
  "has_excluded_tag f m =
     (case f_excluded_tags f of
        None \<Rightarrow> False
      | Some excluded \<Rightarrow> list_ex (\<lambda>tag. tag \<in> set (tags_of m)) excluded)"

definition attraction_passes :: "filters \<Rightarrow> document \<Rightarrow> bool" where
  "attraction_passes f result =
     (let m = doc_metadata result
      in if exceeds_max_price f m then False
         else if outside_categories f m then False
         else if lacks_required_tag f m then False
         else if has_excluded_tag f m then False
         else True)"

definition AttractionRetriever_apply_filters :: "document list \<Rightarrow> filters \<Rightarrow> document list" where
  "AttractionRetriever_apply_filters results f = filter (attraction_passes f) results"

subsection \<open>FoodRetriever.\_apply\_filters\<close>

text \<open>\<^verbatim>\<open>metadata.get("dietary_options", [])\<close> and \<^verbatim>\<open>metadata.get("price_range", "\<euro>\<euro>")\<close>.\<close>

definition dietary_options_of :: "metadata \<Rightarrow> string list" where
  "dietary_options_of m = (case md_dietary_options m of None \<Rightarrow> [] | Some os \<Rightarrow> os)"

definition price_range_of :: "metadata \<Rightarrow> string" where
  "price_range_of m = (case md_price_range m of None \<Rightarrow> euro @ euro | Some p \<Rightarrow> p)"

definition lacks_dietary_option :: "filters \<Rightarrow> metadata \<Rightarrow> bool" where
  "lacks_dietary_option f m =
     (case f_dietary_restrictions f of
        None \<Rightarrow> False
      | Some required \<Rightarrow> \<not> list_ex (\<lambda>opt. opt \<in> set (dietary_options_of m)) required)"

definition outside_budget :: "filters \<Rightarrow> metadata \<Rightarrow> bool" where
  "outside_budget f m =
     (case f_budget_level f of
        None \<Rightarrow> False
      | Some budget \<Rightarrow>
          if budget = BUDGET \<and> price_range_of m \<notin> set [euro, euro @ euro] then True
          else if budget = LUXURY \<and> price_range_of m = euro then True
          else False)"

definition lacks_cuisine :: "filters \<Rightarrow> metadata \<Rightarrow> bool" where
  "lacks_cuisine f m =
     (case f_cuisines f of
        None \<Rightarrow> False
      | Some cuisines \<Rightarrow>
          (let available_cuisines = (case md_cuisine m of None \<Rightarrow> [] | Some cs \<Rightarrow> cs)
           in \<not> list_ex (\<lambda>c. c \<in> set available_cuisines) cuisines))"

definition food_passes :: "filters \<Rightarrow> document \<Rightarrow> bool" where
  "food_passes f result =
     (let m = doc_metadata result
      in if lacks_dietary_option f m then False
         else if outside_budget f m then False
         else if lacks_cuisine f m then False
         else True)"

definition FoodRetriever_apply_filters :: "document list \<Rightarrow> filters \<Rightarrow> document list" where
  "FoodRetriever_apply_filters results f = filter (food_passes f) results"

subsection \<open>ItineraryRetriever.\_apply\_filters\<close>

definition other_destination :: "filters \<Rightarrow> metadata \<Rightarrow> bool" where
  "other_destination f m =
     (case f_destination f of None \<Rightarrow> False | Some dest \<Rightarrow> md_destination m \<noteq> Some dest)"

definition duration_too_far :: "filters \<Rightarrow> metadata \<Rightarrow> bool" where
  "duration_too_far f m =
     (case f_duration_days f of
        None \<Rightarrow> False
      | Some target \<Rightarrow>
          \<bar>(case md_duration_days m of None \<Rightarrow> 0 | Some n \<Rightarrow> n) - target\<bar> > 1)"

definition itinerary_passes :: "filters \<Rightarrow> document \<Rightarrow> bool" where
  "itinerary_passes f result =
     (let m = doc_metadata result
      in if other_destination f m then False
         else if duration_too_far f m then False
         else True)"

definition ItineraryRetriever_apply_filters :: "document list \<Rightarrow> filters \<Rightarrow> document list" where
  "ItineraryRetriever_apply_filters results f = filter (itinerary_passes f) results"

subsection \<open>BaseRetriever\<close>

text \<open>
  The settings are the defaults of \<^verbatim>\<open>config/settings.py\<close>. The embedding model is a
  function from the query to its vector, a parameter of every retrieval.
\<close>

definition embedding_dimension :: nat where
  "embedding_dimension = 384"

definition max_retrieval_results :: int where
  "max_retrieval_results = 10"

definition vector_store_path :: string where
  "vector_store_path = ''data/vector_stores''"

record BaseRetriever =
  source_type :: KnowledgeSource
  vector_store :: FAISSVectorStore
  store_path :: string

definition BaseRetriever_init :: "KnowledgeSource \<Rightarrow> BaseRetriever" where
  "BaseRetriever_init src =
     \<lparr>source_type = src, vector_store = FAISSVectorStore_init embedding_dimension,
      store_path = vector_store_path @ ''/'' @ KnowledgeSource_value src\<rparr>"

text \<open>
  The method \<^verbatim>\<open>_apply_filters\<close> as the class of the retriever resolves it: the tips
  retriever (and any other source) inherits the base method, which returns its input.
\<close>

fun apply_filters :: "KnowledgeSource \<Rightarrow> document list \<Rightarrow> filters \<Rightarrow> document list" where
  "apply_filters ATTRACTIONS results f = AttractionRetriever_apply_filters results f"
| "apply_filters FOOD results f = FoodRetriever_apply_filters results f"
| "apply_filters ITINERARIES results f = ItineraryRetriever_apply_filters results f"
| "apply_filters TIPS results f = results"
| "apply_filters TRANSPORT results f = results"

text \<open>\<^verbatim>\<open>results[:k]\<close>: a negative bound counts from the end.\<close>

definition py_prefix :: "'a list \<Rightarrow> int \<Rightarrow> 'a list" where
  "py_prefix xs k = (if 0 \<le> k then take (nat k) xs else take (length xs - nat (- k)) xs)"

text \<open>
  \<^verbatim>\<open>retrieve\<close>: \<open>filters\<close> is \<open>None\<close> for Python's \<^verbatim>\<open>None\<close>; the test
  \<^verbatim>\<open>if filters:\<close> fails for \<^verbatim>\<open>None\<close> and for the empty dictionary.
\<close>

definition retrieve ::
  "(string \<Rightarrow> real list) \<Rightarrow> BaseRetriever \<Rightarrow> string \<Rightarrow> int \<Rightarrow> filters option
     \<Rightarrow> error + document list" where
  "retrieve embed_fn r query k fs =
     (case similarity_search (vector_store r) (embed_fn query) (k * 2) of
        Inl e \<Rightarrow> Inl e
      | Inr results \<Rightarrow>
          (case fs of
             None \<Rightarrow> Inr (py_prefix results k)
           | Some f \<Rightarrow>
               if f = no_filters then Inr (py_prefix results k)
               else Inr (py_prefix (apply_filters (source_type r) results f) k)))"

subsection \<open>Saving and loading\<close>

text \<open>
  The file system, as far as the stores use it: a directory per path that holds the three
  files \<^verbatim>\<open>index.faiss\<close>, \<^verbatim>\<open>texts.json\<close> and \<^verbatim>\<open>metadata.json\<close>, each of them
  missing, unreadable, or holding what \<^verbatim>\<open>faiss.write_index\<close> or \<^verbatim>\<open>json.dump\<close> wrote.
  A path without a directory has no entry. What the two library functions write is what
  \<^verbatim>\<open>faiss.read_index\<close> and \<^verbatim>\<open>json.load\<close> read back: the vectors of the index, the
  list of texts and the list of metadata records, unchanged.
\<close>

datatype 'a stored = Missing | Corrupt | Valid 'a

record store_dir =
  index_faiss :: "IndexFlatL2 stored"
  texts_json :: "string list stored"
  metadata_json :: "metadata list stored"

type_synonym filesystem = "string \<rightharpoonup> store_dir"

definition no_files :: store_dir where
  "no_files = \<lparr>index_faiss = Missing, texts_json = Missing, metadata_json = Missing\<rparr>"

definition files_at :: "filesystem \<Rightarrow> string \<Rightarrow> store_dir" where
  "files_at fs path = (case fs path of None \<Rightarrow> no_files | Some dir \<Rightarrow> dir)"

definition FAISSVectorStore_save :: "filesystem \<Rightarrow> FAISSVectorStore \<Rightarrow> string \<Rightarrow> filesystem" where
  "FAISSVectorStore_save fs s path =
     fs(path \<mapsto> \<lparr>index_faiss = Valid (index s), texts_json = Valid (texts s),
                  metadata_json = Valid (metadatas s)\<rparr>)"

definition read_index :: "IndexFlatL2 stored \<Rightarrow> error + IndexFlatL2" where
  "read_index f = (case f of Valid ix \<Rightarrow> Inr ix | Missing \<Rightarrow> Inl RuntimeError | Corrupt \<Rightarrow> Inl RuntimeError)"

definition json_load :: "'a stored \<Rightarrow> error + 'a" where
  "json_load f =
     (case f of Valid v \<Rightarrow> Inr v | Missing \<Rightarrow> Inl FileNotFoundError | Corrupt \<Rightarrow> Inl JSONDecodeError)"

text \<open>
  \<^verbatim>\<open>FAISSVectorStore.load\<close> assigns the three attributes one after the other; an
  exception leaves the attributes assigned before it. The result is the exception raised,
  if any, and the store as the call leaves it.
\<close>

definition FAISSVectorStore_load ::
  "filesystem \<Rightarrow> FAISSVectorStore \<Rightarrow> string \<Rightarrow> error option \<times> FAISSVectorStore" where
  "FAISSVectorStore_load fs s path =
     (case read_index (index_faiss (files_at fs path)) of
        Inl e \<Rightarrow> (Some e, s)
      | Inr ix \<Rightarrow>
          (case json_load (texts_json (files_at fs path)) of
             Inl e \<Rightarrow> (Some e, s\<lparr>index := ix\<rparr>)
           | Inr ts \<Rightarrow>
               (case json_load (metadata_json (files_at fs path)) of
                  Inl e \<Rightarrow> (Some e, s\<lparr>index := ix, texts := ts\<rparr>)
                | Inr ms \<Rightarrow> (None, s\<lparr>index := ix, texts := ts, metadatas := ms\<rparr>))))"

definition BaseRetriever_save :: "filesystem \<Rightarrow> BaseRetriever \<Rightarrow> filesystem" where
  "BaseRetriever_save fs r = FAISSVectorStore_save fs (vector_store r) (store_path r)"

text \<open>
  \<^verbatim>\<open>BaseRetriever.load\<close>: \<^verbatim>\<open>False\<close> when the path does not exist; otherwise the
  store's \<^verbatim>\<open>load\<close> inside \<^verbatim>\<open>try\<close>, any exception answered with \<^verbatim>\<open>False\<close>.
\<close>

definition BaseRetriever_load :: "filesystem \<Rightarrow> BaseRetriever \<Rightarrow> bool \<times> BaseRetriever" where
  "BaseRetriever_load fs r =
     (case fs (store_path r) of
        None \<Rightarrow> (False, r)
      | Some dir \<Rightarrow>
          (case FAISSVectorStore_load fs (vector_store r) (store_path r) of
             (None, vs) \<Rightarrow> (True, r\<lparr>vector_store := vs\<rparr>)
           | (Some e, vs) \<Rightarrow> (False, r\<lparr>vector_store := vs\<rparr>)))"

subsection \<open>MultiSourceRetriever\<close>

record MultiSourceRetriever =
  attractions :: BaseRetriever
  food :: BaseRetriever
  tips :: BaseRetriever
  itineraries :: BaseRetriever

definition MultiSourceRetriever_init :: MultiSourceRetriever where
  "MultiSourceRetriever_init =
     \<lparr>attractions = BaseRetriever_init ATTRACTIONS, food = BaseRetriever_init FOOD,
      tips = BaseRetriever_init TIPS, itineraries = BaseRetriever_init ITINERARIES\<rparr>"

fun get_retriever :: "MultiSourceRetriever \<Rightarrow> KnowledgeSource \<Rightarrow> error + BaseRetriever" where
  "get_retriever m ATTRACTIONS = Inr (attractions m)"
| "get_retriever m FOOD = Inr (food m)"
| "get_retriever m TIPS = Inr (tips m)"
| "get_retriever m ITINERARIES = Inr (itineraries m)"
| "get_retriever m TRANSPORT = Inl KeyError"

definition load_all :: "filesystem \<Rightarrow> MultiSourceRetriever \<Rightarrow> MultiSourceRetriever" where
  "load_all fs m =
     (let m1 = m\<lparr>attractions := snd (BaseRetriever_load fs (attractions m))\<rparr>;
          m2 = m1\<lparr>food := snd (BaseRetriever_load fs (food m1))\<rparr>;
          m3 = m2\<lparr>tips := snd (BaseRetriever_load fs (tips m2))\<rparr>
      in m3\<lparr>itineraries := snd (BaseRetriever_load fs (itineraries m3))\<rparr>)"

section \<open>The workflow nodes (nodes.py)\<close>

subsection \<open>The planner state\<close>

record parsed_intent =
  pi_destinations :: "string list"
  pi_duration_days :: int
  pi_budget_level :: BudgetLevel
  pi_dietary_needs :: "DietaryRestriction list"
  pi_interests :: "string list"
  pi_avoid_list :: "string list"
  pi_pace :: string
  pi_walkable :: bool
  pi_group_type :: "string option"

record retrieval_strategy =
  sources :: "KnowledgeSource list"
  strategy_filters :: "(KnowledgeSource \<times> filters) list"
  priority :: "string list"

text \<open>
  The values a state key holds. The state is the dictionary that the nodes read with
  \<^verbatim>\<open>state[key]\<close> and \<^verbatim>\<open>state.get(key, default)\<close>; a node returns a dictionary of
  the keys it writes.
\<close>

datatype pyval =
    VNone
  | VBool bool
  | VInt int
  | VFloat real
  | VStr string
  | VStrs "string list"
  | VDocs "document list"
  | VPrefs UserPreferences
  | VIntent parsed_intent
  | VStrategy retrieval_strategy

type_synonym PlannerState = "string \<rightharpoonup> pyval"

text \<open>The keys that \<^verbatim>\<open>state.py\<close> declares for \<^verbatim>\<open>PlannerState\<close>.\<close>

definition PlannerState_keys :: "string list" where
  "PlannerState_keys =
     [''user_preferences'', ''parsed_intent'', ''retrieval_strategy'',
      ''attractions_context'', ''food_context'', ''transport_context'', ''tips_context'',
      ''itinerary_context'', ''aggregated_context'', ''draft_itinerary'',
      ''validation_results'', ''constraints_met'', ''needs_replanning'', ''replan_reason'',
      ''final_itinerary'', ''errors'', ''warnings'', ''iteration_count'',
      ''processing_time'']"

fun truthy :: "pyval \<Rightarrow> bool" where
  "truthy VNone = False"
| "truthy (VBool b) = b"
| "truthy (VInt n) = (n \<noteq> 0)"
| "truthy (VFloat x) = (x \<noteq> 0)"
| "truthy (VStr s) = (s \<noteq> [])"
| "truthy (VStrs xs) = (xs \<noteq> [])"
| "truthy (VDocs ds) = (ds \<noteq> [])"
| "truthy (VPrefs p) = True"
| "truthy (VIntent i) = True"
| "truthy (VStrategy r) = True"

text \<open>\<^verbatim>\<open>state["user_preferences"]\<close>, whose attributes the nodes then read.\<close>

definition get_preferences :: "PlannerState \<Rightarrow> error + UserPreferences" where
  "get_preferences st =
     (case st ''user_preferences'' of
        None \<Rightarrow> Inl KeyError
      | Some (VPrefs prefs) \<Rightarrow> Inr prefs
      | Some _ \<Rightarrow> Inl AttributeError)"

subsection \<open>IntentAnalyzerNode\<close>

definition determine_sources :: "UserPreferences \<Rightarrow> KnowledgeSource list" where
  "determine_sources prefs = [ATTRACTIONS, FOOD, TIPS] @ [ITINERARIES]"

definition attraction_filters_of :: "UserPreferences \<Rightarrow> filters" where
  "attraction_filters_of prefs =
     (let f0 = no_filters;
          f1 = (if budget_level prefs = BUDGET then f0\<lparr>f_max_price := Some 10\<rparr>
                else if budget_level prefs = MODERATE then f0\<lparr>f_max_price := Some 25\<rparr>
                else f0);
          f2 = (if avoid prefs = [] then f1 else f1\<lparr>f_excluded_tags := Some (avoid prefs)\<rparr>)
      in if interests prefs = [] then f2 else f2\<lparr>f_required_tags := Some (interests prefs)\<rparr>)"

definition food_filters_of :: "UserPreferences \<Rightarrow> filters" where
  "food_filters_of prefs =
     no_filters\<lparr>f_dietary_restrictions := Some (dietary_restrictions prefs),
                f_budget_level := Some (budget_level prefs)\<rparr>"

definition itinerary_filters_of :: "UserPreferences \<Rightarrow> filters" where
  "itinerary_filters_of prefs = no_filters\<lparr>f_duration_days := Some (duration_of prefs)\<rparr>"

definition build_filters :: "UserPreferences \<Rightarrow> (KnowledgeSource \<times> filters) list" where
  "build_filters prefs =
     [(ATTRACTIONS, attraction_filters_of prefs), (FOOD, food_filters_of prefs),
      (ITINERARIES, itinerary_filters_of prefs)]"

definition determine_priority :: "UserPreferences \<Rightarrow> string list" where
  "determine_priority prefs =
     (if budget_level prefs = BUDGET then [''cost''] else [])
     @ (if walking_preference prefs then [''proximity''] else [])
     @ (if ''food'' \<in> set (interests prefs) then [''culinary''] else [])"

definition parse_intent :: "UserPreferences \<Rightarrow> parsed_intent" where
  "parse_intent prefs =
     \<lparr>pi_destinations = destinations prefs, pi_duration_days = duration_of prefs,
      pi_budget_level = budget_level prefs, pi_dietary_needs = dietary_restrictions prefs,
      pi_interests = interests prefs, pi_avoid_list = avoid prefs, pi_pace = pace prefs,
      pi_walkable = walking_preference prefs, pi_group_type = group_type prefs\<rparr>"

definition IntentAnalyzerNode_call :: "PlannerState \<Rightarrow> error + (string \<times> pyval) list" where
  "IntentAnalyzerNode_call st =
     (case get_preferences st of
        Inl e \<Rightarrow> Inl e
      | Inr prefs \<Rightarrow>
          Inr [(''parsed_intent'', VIntent (parse_intent prefs)),
               (''retrieval_strategy'',
                  VStrategy \<lparr>sources = determine_sources prefs,
                             strategy_filters = build_filters prefs,
                             priority = determine_priority prefs\<rparr>),
               (''errors'', (case st ''errors'' of None \<Rightarrow> VStrs [] | Some v \<Rightarrow> v)),
               (''warnings'', (case st ''warnings'' of None \<Rightarrow> VStrs [] | Some v \<Rightarrow> v))])"

subsection \<open>ParallelRetrieverNode\<close>

record ParallelRetrieverNode =
  node_source :: KnowledgeSource
  node_retriever :: MultiSourceRetriever

definition ParallelRetrieverNode_init :: "KnowledgeSource \<Rightarrow> ParallelRetrieverNode" where
  "ParallelRetrieverNode_init src =
     \<lparr>node_source = src, node_retriever = MultiSourceRetriever_init\<rparr>"

fun build_query :: "UserPreferences \<Rightarrow> KnowledgeSource \<Rightarrow> string" where
  "build_query prefs ATTRACTIONS =
     join '', '' (destinations prefs) @ '' ''
     @ (if interests prefs = [] then ''popular attractions'' else join '', '' (interests prefs))
     @ '' places to visit''"
| "build_query prefs FOOD =
     join '', '' (destinations prefs) @ '' '' @ BudgetLevel_value (budget_level prefs) @ '' ''
     @ join '', '' (dietary_restrictions prefs) @ '' restaurants''"
| "build_query prefs TIPS =
     join '', '' (destinations prefs) @ '' travel tips local advice best time to visit''"
| "build_query prefs ITINERARIES =
     join '', '' (destinations prefs) @ '' '' @ str_int (duration_of prefs)
     @ '' day itinerary '' @ BudgetLevel_value (budget_level prefs)"
| "build_query prefs TRANSPORT = join '', '' (destinations prefs)"

text \<open>The key \<^verbatim>\<open>f"{self.source.value}_context"\<close>.\<close>

definition context_key :: "KnowledgeSource \<Rightarrow> string" where
  "context_key src = KnowledgeSource_value src @ ''_context''"

text \<open>
  The call reads \<^verbatim>\<open>state["retrieval_strategy"]\<close>, then the request and its
  attributes for the query, then the filters of the strategy, then the retriever. A held
  dictionary that is no strategy has no key \<^verbatim>\<open>filters\<close>; any other held value cannot
  be read by key.
\<close>

definition ParallelRetrieverNode_call ::
  "(string \<Rightarrow> real list) \<Rightarrow> ParallelRetrieverNode \<Rightarrow> PlannerState
     \<Rightarrow> error + (string \<times> pyval) list" where
  "ParallelRetrieverNode_call embed_fn node st =
     (case st ''retrieval_strategy'' of
        None \<Rightarrow> Inl KeyError
      | Some held \<Rightarrow>
          (case get_preferences st of
             Inl e \<Rightarrow> Inl e
           | Inr prefs \<Rightarrow>
               (case held of
                  VStrategy strategy \<Rightarrow>
                    (let query = build_query prefs (node_source node);
                         fltrs = (case map_of (strategy_filters strategy) (node_source node) of
                                    None \<Rightarrow> no_filters
                                  | Some f \<Rightarrow> f)
                     in case get_retriever (node_retriever node) (node_source node) of
                          Inl e \<Rightarrow> Inl e
                        | Inr retriever \<Rightarrow>
                            (case retrieve embed_fn retriever query max_retrieval_results
                                    (Some fltrs) of
                               Inl e \<Rightarrow> Inl e
                             | Inr results \<Rightarrow>
                                 Inr [(context_key (node_source node), VDocs results)]))
                | VIntent other \<Rightarrow> Inl KeyError
                | _ \<Rightarrow> Inl TypeError)))"

subsection \<open>ContextAggregatorNode\<close>

text \<open>
  The rendering of a score with \<^verbatim>\<open>:.2f\<close> and \<^verbatim>\<open>json.dumps\<close> of a metadata
  dictionary are library functions, parameters of the aggregation.
\<close>

record rendering =
  format_score :: "real \<Rightarrow> string"
  json_dumps :: "metadata \<Rightarrow> string"

definition newline :: string where
  "newline = [CHR 0x0A]"

text \<open>
  \<^verbatim>\<open>state.get(key, [])\<close> as the aggregation uses it: a list of documents, or a value
  that the test \<^verbatim>\<open>if attractions:\<close> takes for empty; any other value fails when its
  items are read.
\<close>

definition get_context :: "PlannerState \<Rightarrow> string \<Rightarrow> error + document list" where
  "get_context st key =
     (case st key of
        None \<Rightarrow> Inr []
      | Some (VDocs ds) \<Rightarrow> Inr ds
      | Some v \<Rightarrow> if truthy v then Inl TypeError else Inr [])"

definition attraction_section :: "rendering \<Rightarrow> document list \<Rightarrow> string list" where
  "attraction_section rd attrs =
     (if attrs = [] then []
      else ''## Available Attractions''
           # concat (map (\<lambda>(i, item).
                 [str_nat i @ ''. '' @ doc_text item,
                  ''   Score: '' @ format_score rd (doc_score item),
                  ''   Metadata: '' @ json_dumps rd (doc_metadata item) @ newline])
               (List.enumerate 1 (take 10 attrs))))"

definition food_section :: "rendering \<Rightarrow> document list \<Rightarrow> string list" where
  "food_section rd fd =
     (if fd = [] then []
      else ''## Food Options''
           # concat (map (\<lambda>(i, item).
                 [str_nat i @ ''. '' @ doc_text item,
                  ''   Score: '' @ format_score rd (doc_score item) @ newline])
               (List.enumerate 1 (take 10 fd))))"

definition tips_section :: "document list \<Rightarrow> string list" where
  "tips_section tps =
     (if tps = [] then []
      else ''## Local Tips & Advice''
           # map (\<lambda>item. ''- '' @ doc_text item @ newline) (take 5 tps))"

text \<open>
  \<^verbatim>\<open>item['text'][:200]\<close> keeps 200 code points; here a text is a list of bytes, the
  same for a text in ASCII.
\<close>

definition itinerary_section :: "document list \<Rightarrow> string list" where
  "itinerary_section its =
     (if its = [] then []
      else ''## Similar Past Itineraries''
           # map (\<lambda>(i, item). str_nat i @ ''. '' @ take 200 (doc_text item) @ ''...'' @ newline)
               (List.enumerate 1 (take 3 its)))"

definition build_context_string ::
  "rendering \<Rightarrow> document list \<Rightarrow> document list \<Rightarrow> document list \<Rightarrow> document list
     \<Rightarrow> UserPreferences \<Rightarrow> string" where
  "build_context_string rd attrs fd tps its preferences =
     join newline
       ([''## Trip Planning Context'' @ newline,
         ''Destinations: '' @ join '', '' (destinations preferences),
         ''Duration: '' @ str_int (duration_of preferences) @ '' days'',
         ''Budget: '' @ BudgetLevel_value (budget_level preferences),
         ''Group: ''
           @ (case group_type preferences of
                None \<Rightarrow> ''N/A''
              | Some g \<Rightarrow> if g = [] then ''N/A'' else g)
           @ newline]
        @ attraction_section rd attrs @ food_section rd fd @ tips_section tps
        @ itinerary_section its)"

text \<open>
  The call evaluates \<^verbatim>\<open>state["user_preferences"]\<close> as an argument and reads the
  dates first, so a missing or ill-typed request fails before any context is read.
\<close>

definition ContextAggregatorNode_call ::
  "rendering \<Rightarrow> PlannerState \<Rightarrow> error + (string \<times> pyval) list" where
  "ContextAggregatorNode_call rd st =
     (case get_preferences st of
        Inl e \<Rightarrow> Inl e
      | Inr preferences \<Rightarrow>
     (case get_context st ''attractions_context'' of
        Inl e \<Rightarrow> Inl e
      | Inr attrs \<Rightarrow>
     (case get_context st ''food_context'' of
        Inl e \<Rightarrow> Inl e
      | Inr fd \<Rightarrow>
     (case get_context st ''tips_context'' of
        Inl e \<Rightarrow> Inl e
      | Inr tps \<Rightarrow>
     (case get_context st ''itinerary_context'' of
        Inl e \<Rightarrow> Inl e
      | Inr its \<Rightarrow>
          Inr [(''aggregated_context'',
                VStr (build_context_string rd attrs fd tps its preferences))])))))"

text \<open>The keys that the aggregation reads for the retrieved documents.\<close>

definition aggregated_keys :: "string list" where
  "aggregated_keys =
     [''attractions_context'', ''food_context'', ''tips_context'', ''itinerary_context'']"

section \<open>The planning graph (workflow.py)\<close>

subsection \<open>should\_replan\<close>

text \<open>
  \<^verbatim>\<open>state.get("iteration_count", 0) < 3\<close>: a number or a truth value compares with
  \<open>3\<close>, any other value raises.
\<close>

fun below_three :: "pyval \<Rightarrow> error + bool" where
  "below_three (VInt n) = Inr (n < 3)"
| "below_three (VBool b) = Inr True"
| "below_three (VFloat x) = Inr (x < 3)"
| "below_three v = Inl TypeError"

definition should_replan :: "PlannerState \<Rightarrow> error + string" where
  "should_replan st =
     (if truthy (case st ''needs_replanning'' of None \<Rightarrow> VBool False | Some v \<Rightarrow> v) then
        (case below_three (case st ''iteration_count'' of None \<Rightarrow> VInt 0 | Some v \<Rightarrow> v) of
           Inl e \<Rightarrow> Inl e
         | Inr True \<Rightarrow> Inr ''generate''
         | Inr False \<Rightarrow> Inr ''end'')
      else Inr ''end'')"

subsection \<open>The graph\<close>

datatype node =
    Analyzer
  | Retriever ParallelRetrieverNode
  | Aggregator

record graph =
  g_nodes :: "(string \<times> node) list"
  g_entry :: string
  g_edges :: "(string \<times> string) list"

definition END :: string where
  "END = ''__end__''"

text \<open>
  The four retriever nodes are objects of the module \<^verbatim>\<open>nodes.py\<close>, built when it is
  imported, each with a coordinator of its own whose stores are new and empty.
  \<^verbatim>\<open>build_planning_graph\<close> registers these objects, whatever their stores hold by then.
\<close>

record retriever_nodes =
  attraction_retriever_node :: ParallelRetrieverNode
  food_retriever_node :: ParallelRetrieverNode
  tips_retriever_node :: ParallelRetrieverNode
  itinerary_retriever_node :: ParallelRetrieverNode

definition nodes_at_import :: retriever_nodes where
  "nodes_at_import =
     \<lparr>attraction_retriever_node = ParallelRetrieverNode_init ATTRACTIONS,
      food_retriever_node = ParallelRetrieverNode_init FOOD,
      tips_retriever_node = ParallelRetrieverNode_init TIPS,
      itinerary_retriever_node = ParallelRetrieverNode_init ITINERARIES\<rparr>"

definition build_planning_graph :: "retriever_nodes \<Rightarrow> graph" where
  "build_planning_graph ns =
     \<lparr>g_nodes =
        [(''analyze_intent'', Analyzer),
         (''retrieve_attractions'', Retriever (attraction_retriever_node ns)),
         (''retrieve_food'', Retriever (food_retriever_node ns)),
         (''retrieve_tips'', Retriever (tips_retriever_node ns)),
         (''retrieve_itineraries'', Retriever (itinerary_retriever_node ns)),
         (''aggregate_context'', Aggregator)],
      g_entry = ''analyze_intent'',
      g_edges =
        [(''analyze_intent'', ''retrieve_attractions''),
         (''analyze_intent'', ''retrieve_food''),
         (''analyze_intent'', ''retrieve_tips''),
         (''analyze_intent'', ''retrieve_itineraries''),
         (''retrieve_attractions'', ''aggregate_context''),
         (''retrieve_food'', ''aggregate_context''),
         (''retrieve_tips'', ''aggregate_context''),
         (''retrieve_itineraries'', ''aggregate_context''),
         (''aggregate_context'', END)]\<rparr>"

definition planner_graph :: graph where
  "planner_graph = build_planning_graph nodes_at_import"

subsection \<open>Running a compiled graph\<close>

text \<open>
  The graph engine is the LangGraph library. Its behaviour, as far as this graph uses it:
  the keys of the state type are the channels; a run proceeds in steps; the nodes of a step
  all read the state the step began with; of the dictionary a node returns, the declared
  keys are written and any other key is dropped; two nodes writing one key in the same
  step are an error; the next step runs the nodes that the edges of the nodes just run
  lead to, and the run ends when there are none; a run of more than 25 steps (the
  default recursion limit) is an error. An exception of a node ends the run.
\<close>

record runtime =
  embed_text :: "string \<Rightarrow> real list"
  render :: rendering

fun call_node :: "runtime \<Rightarrow> node \<Rightarrow> PlannerState \<Rightarrow> error + (string \<times> pyval) list" where
  "call_node rt Analyzer st = IntentAnalyzerNode_call st"
| "call_node rt (Retriever n) st = ParallelRetrieverNode_call (embed_text rt) n st"
| "call_node rt Aggregator st = ContextAggregatorNode_call (render rt) st"

fun run_step ::
  "runtime \<Rightarrow> graph \<Rightarrow> string list \<Rightarrow> PlannerState \<Rightarrow> error + (string \<times> pyval) list list" where
  "run_step rt g [] st = Inr []"
| "run_step rt g (name # names) st =
     (case map_of (g_nodes g) name of
        None \<Rightarrow> Inl KeyError
      | Some n \<Rightarrow>
          (case call_node rt n st of
             Inl e \<Rightarrow> Inl e
           | Inr update \<Rightarrow>
               (case run_step rt g names st of
                  Inl e \<Rightarrow> Inl e
                | Inr updates \<Rightarrow> Inr (update # updates))))"

definition channel_writes :: "(string \<times> pyval) list \<Rightarrow> (string \<times> pyval) list" where
  "channel_writes update = filter (\<lambda>(key, v). key \<in> set PlannerState_keys) update"

definition apply_writes :: "PlannerState \<Rightarrow> (string \<times> pyval) list \<Rightarrow> PlannerState" where
  "apply_writes st writes = fold (\<lambda>(key, v) s. s(key \<mapsto> v)) writes st"

definition next_nodes :: "graph \<Rightarrow> string list \<Rightarrow> string list" where
  "next_nodes g active =
     remdups (filter (\<lambda>t. t \<noteq> END)
       (concat (map (\<lambda>name. map snd (filter (\<lambda>(s, t). s = name) (g_edges g))) active)))"

fun pregel_loop ::
  "runtime \<Rightarrow> graph \<Rightarrow> nat \<Rightarrow> string list \<Rightarrow> PlannerState \<Rightarrow> string list list
     \<Rightarrow> error + (PlannerState \<times> string list list)" where
  "pregel_loop rt g fuel [] st done = Inr (st, done)"
| "pregel_loop rt g 0 (name # names) st done = Inl GraphRecursionError"
| "pregel_loop rt g (Suc fuel) (name # names) st done =
     (case run_step rt g (name # names) st of
        Inl e \<Rightarrow> Inl e
      | Inr updates \<Rightarrow>
          (let writes = concat (map channel_writes updates)
           in if distinct (map fst writes) then
                pregel_loop rt g fuel (next_nodes g (name # names)) (apply_writes st writes)
                  (done @ [name # names])
              else Inl InvalidUpdateError))"

definition recursion_limit :: nat where
  "recursion_limit = 25"

text \<open>
  A run from the input dictionary: the final state and the steps that were run, each with
  the names of its nodes.
\<close>

definition run_graph ::
  "runtime \<Rightarrow> graph \<Rightarrow> (string \<times> pyval) list \<Rightarrow> error + (PlannerState \<times> string list list)" where
  "run_graph rt g input =
     pregel_loop rt g recursion_limit [g_entry g]
       (apply_writes Map.empty (channel_writes input)) []"

definition invoke :: "runtime \<Rightarrow> graph \<Rightarrow> (string \<times> pyval) list \<Rightarrow> error + PlannerState" where
  "invoke rt g input =
     (case run_graph rt g input of Inl e \<Rightarrow> Inl e | Inr (st, steps) \<Rightarrow> Inr st)"

text \<open>The initial state that \<^verbatim>\<open>main.py\<close> and the example build for a request.\<close>

definition initial_state :: "UserPreferences \<Rightarrow> (string \<times> pyval) list" where
  "initial_state prefs =
     [(''user_preferences'', VPrefs prefs), (''errors'', VStrs []), (''warnings'', VStrs []),
      (''iteration_count'', VInt 0)]"

section \<open>Notions used to state the properties\<close>

text \<open>
  A store is well formed when its three sequences have one length, as they have after
  calls of \<^verbatim>\<open>add_documents\<close> that pass as many texts and metadata records as
  embeddings.
\<close>

definition well_formed :: "FAISSVectorStore \<Rightarrow> bool" where
  "well_formed s =
     (length (ix_xb (index s)) = length (texts s) \<and> length (metadatas s) = length (texts s))"

text \<open>
  The result dictionary that the loop of \<^verbatim>\<open>similarity_search\<close> builds from a hit
  whose label is in range: the document at the label, or the last document for the
  label \<open>-1\<close>.
\<close>

definition as_result :: "string list \<Rightarrow> metadata list \<Rightarrow> int \<times> real \<Rightarrow> document" where
  "as_result ts ms hit =
     (if 0 \<le> fst hit then
        \<lparr>doc_text = ts ! nat (fst hit), doc_metadata = ms ! nat (fst hit),
         doc_score = 1 / (1 + snd hit)\<rparr>
      else \<lparr>doc_text = last ts, doc_metadata = last ms, doc_score = 1 / (1 + snd hit)\<rparr>)"

text \<open>
  A sequence of \<^verbatim>\<open>add_documents\<close> calls on one store; a call that raises leaves the
  store unchanged and the next call follows.
\<close>

fun add_calls ::
  "FAISSVectorStore \<Rightarrow> (string list \<times> real list list \<times> metadata list option) list
     \<Rightarrow> FAISSVectorStore" where
  "add_calls s [] = s"
| "add_calls s ((txts, embeddings, mds) # calls) =
     (case add_documents s txts embeddings mds of
        Inl e \<Rightarrow> add_calls s calls
      | Inr s' \<Rightarrow> add_calls s' calls)"

definition retriever_names :: "string list" where
  "retriever_names =
     [''retrieve_attractions'', ''retrieve_food'', ''retrieve_tips'', ''retrieve_itineraries'']"

section \<open>Example data\<close>

text \<open>A store with one document, used to run the search on a short index.\<close>

definition louvre_store :: FAISSVectorStore where
  "louvre_store =
     \<lparr>dimension = 1, index = \<lparr>ix_d = 1, ix_xb = [[0]]\<rparr>,
      texts = [''Louvre''], metadatas = [empty_metadata]\<rparr>"

text \<open>A store with two documents at distance 0 and 9 from the query \<open>[0]\<close>.\<close>

definition two_store :: FAISSVectorStore where
  "two_store =
     \<lparr>dimension = 1, index = \<lparr>ix_d = 1, ix_xb = [[0], [3]]\<rparr>,
      texts = [''Louvre'', ''Orsay''], metadatas = [empty_metadata, empty_metadata]\<rparr>"

text \<open>Two attractions, one tagged and one without metadata, and two filter records.\<close>

definition museum :: document where
  "museum =
     \<lparr>doc_text = ''Musee'', doc_metadata = empty_metadata\<lparr>md_tags := Some [''art'']\<rparr>,
      doc_score = 1\<rparr>"

definition park :: document where
  "park = \<lparr>doc_text = ''Parc'', doc_metadata = empty_metadata, doc_score = 1 / 2\<rparr>"

definition art_and_food :: filters where
  "art_and_food = no_filters\<lparr>f_required_tags := Some [''art'', ''food'']\<rparr>"

definition no_art :: filters where
  "no_art = no_filters\<lparr>f_excluded_tags := Some [''art'']\<rparr>"

text \<open>Food places by price band and dietary options, and the budget filters.\<close>

definition bistro :: "string \<Rightarrow> document" where
  "bistro band =
     \<lparr>doc_text = ''Bistro'',
      doc_metadata = empty_metadata\<lparr>md_price_range := Some band,
                                      md_dietary_options := Some [''vegetarian'', ''vegan'']\<rparr>,
      doc_score = 1\<rparr>"

definition budget_only :: "BudgetLevel \<Rightarrow> filters" where
  "budget_only b = no_filters\<lparr>f_budget_level := Some b\<rparr>"

text \<open>The request of the end-to-end scenario, and the same request without a diet.\<close>

definition paris_preferences :: UserPreferences where
  "paris_preferences =
     \<lparr>destinations = [''Paris''], start_date = midnight 2024 6 15,
      end_date = midnight 2024 6 17, budget_level = BUDGET,
      dietary_restrictions = [VEGETARIAN], interests = [''art'', ''food''], avoid = [],
      pace = ''moderate'', walking_preference = True, group_type = None\<rparr>"

definition plain_preferences :: UserPreferences where
  "plain_preferences = paris_preferences\<lparr>dietary_restrictions := []\<rparr>"

text \<open>
  An embedding model that maps every text to the zero vector of the configured
  dimension, and renderings that ignore their argument.
\<close>

definition plain_rendering :: rendering where
  "plain_rendering = \<lparr>format_score = (\<lambda>x. ''0.00''), json_dumps = (\<lambda>m. ''{}'')\<rparr>"

definition zero_runtime :: runtime where
  "zero_runtime =
     \<lparr>embed_text = (\<lambda>q. replicate embedding_dimension 0), render = plain_rendering\<rparr>"

text \<open>
  Retriever nodes whose stores hold one document that passes the filters of the Paris
  request, with vectors of dimension one, and the embedding model for them.
\<close>

definition sample_metadata :: metadata where
  "sample_metadata =
     empty_metadata\<lparr>md_admission_fee := Some 0, md_tags := Some [''art'', ''food''],
                    md_dietary_options := Some [''vegetarian''], md_price_range := Some euro,
                    md_duration_days := Some 3\<rparr>"

definition sample_store :: FAISSVectorStore where
  "sample_store =
     \<lparr>dimension = 1, index = \<lparr>ix_d = 1, ix_xb = [[0]]\<rparr>,
      texts = [''Louvre''], metadatas = [sample_metadata]\<rparr>"

definition sample_retriever :: "KnowledgeSource \<Rightarrow> BaseRetriever" where
  "sample_retriever src = (BaseRetriever_init src)\<lparr>vector_store := sample_store\<rparr>"

definition sample_coordinator :: MultiSourceRetriever where
  "sample_coordinator =
     \<lparr>attractions = sample_retriever ATTRACTIONS, food = sample_retriever FOOD,
      tips = sample_retriever TIPS, itineraries = sample_retriever ITINERARIES\<rparr>"

definition sample_node :: "KnowledgeSource \<Rightarrow> ParallelRetrieverNode" where
  "sample_node src = \<lparr>node_source = src, node_retriever = sample_coordinator\<rparr>"

definition sample_nodes :: retriever_nodes where
  "sample_nodes =
     \<lparr>attraction_retriever_node = sample_node ATTRACTIONS,
      food_retriever_node = sample_node FOOD,
      tips_retriever_node = sample_node TIPS,
      itinerary_retriever_node = sample_node ITINERARIES\<rparr>"

definition unit_runtime :: runtime where
  "unit_runtime = \<lparr>embed_text = (\<lambda>q. [0]), render = plain_rendering\<rparr>"

text \<open>The state after the intent analysis of a request, as the retriever nodes read it.\<close>

definition analyzed_state :: "UserPreferences \<Rightarrow> PlannerState" where
  "analyzed_state prefs =
     [''user_preferences'' \<mapsto> VPrefs prefs,
      ''retrieval_strategy'' \<mapsto>
         VStrategy \<lparr>sources = determine_sources prefs, strategy_filters = build_filters prefs,
                    priority = determine_priority prefs\<rparr>]"

text \<open>An input that asks for replanning on its first iteration.\<close>

definition replanning_input :: "(string \<times> pyval) list" where
  "replanning_input = initial_state paris_preferences @ [(''needs_replanning'', VBool True)]"

text \<open>
  The documents that a search for twenty results on the sample store returns: the stored
  document, and the same document for each padded hit.
\<close>

definition sample_hit :: document where
  "sample_hit = \<lparr>doc_text = ''Louvre'', doc_metadata = sample_metadata, doc_score = 1\<rparr>"

definition sample_pad :: document where
  "sample_pad =
     \<lparr>doc_text = ''Louvre'', doc_metadata = sample_metadata, doc_score = 1 / (1 + FLT_MAX)\<rparr>"

definition sample_results :: "document list" where
  "sample_results = sample_hit # replicate 9 sample_pad"

definition paris_strategy :: retrieval_strategy where
  "paris_strategy =
     \<lparr>sources = determine_sources paris_preferences,
      strategy_filters = build_filters paris_preferences,
      priority = determine_priority paris_preferences\<rparr>"

text \<open>
  Of the outcome of a run: the steps that were run, and what \<^verbatim>\<open>should_replan\<close> answers
  on the final state.
\<close>

definition steps_of :: "error + (PlannerState \<times> string list list) \<Rightarrow> string list list option" where
  "steps_of outcome = (case outcome of Inl e \<Rightarrow> None | Inr (st, steps) \<Rightarrow> Some steps)"

definition replan_after ::
  "error + (PlannerState \<times> string list list) \<Rightarrow> (error + string) option" where
  "replan_after outcome =
     (case outcome of Inl e \<Rightarrow> None | Inr (st, steps) \<Rightarrow> Some (should_replan st))"

text \<open>
  Hits in the order of the index: by ascending distance, and by ascending label where
  distances are equal.
\<close>

definition tie_ordered :: "(int \<times> real) list \<Rightarrow> bool" where
  "tie_ordered hits =
     sorted_wrt (\<lambda>a b. snd a < snd b \<or> (snd a = snd b \<and> fst a < fst b)) hits"

text \<open>
  A directory of the food retriever in which the index and the texts were saved and the
  metadata file is missing.
\<close>

definition half_saved :: filesystem where
  "half_saved =
     [store_path (BaseRetriever_init FOOD) \<mapsto>
        \<lparr>index_faiss = Valid (index sample_store), texts_json = Valid (texts sample_store),
         metadata_json = Missing\<rparr>]"

chapter \<open>Properties\<close>

section \<open>Reading the hits of a search\<close>

lemma getitem_last: "xs \<noteq> [] \<Longrightarrow> py_getitem xs (- 1) = Inr (last xs)"
  by (cases xs rule: rev_cases) (auto simp: py_getitem_def nth_append)

lemma collect_results_aligned:
  "ts \<noteq> [] \<Longrightarrow> length ms = length ts
     \<Longrightarrow> list_all (\<lambda>hit. - 1 \<le> fst hit \<and> fst hit < int (length ts)) hits
     \<Longrightarrow> collect_results ts ms hits = Inr (map (as_result ts ms) hits)"
proof (induction hits)
  case Nil
  then show ?case by simp
next
  case (Cons hit hits)
  obtain idx distance where hit: "hit = (idx, distance)" by (cases hit)
  from Cons.prems have ms: "ms \<noteq> []" by auto
  from Cons.prems hit have range: "- 1 \<le> idx" "idx < int (length ts)" by auto
  have tail: "collect_results ts ms hits = Inr (map (as_result ts ms) hits)"
    using Cons by simp
  show ?case
  proof (cases "0 \<le> idx")
    case True
    then have "py_getitem ts idx = Inr (ts ! nat idx)" "py_getitem ms idx = Inr (ms ! nat idx)"
      using range Cons.prems(2) by (simp_all add: py_getitem_def)
    then show ?thesis using True range tail hit by (simp add: as_result_def)
  next
    case False
    then have "idx = - 1" using range by simp
    then show ?thesis
      using tail hit range Cons.prems(1) ms by (simp add: as_result_def getitem_last)
  qed
qed

lemma collect_results_empty_store:
  "0 < n \<Longrightarrow> collect_results [] ms (replicate n (- 1, x)) = Inl IndexError"
  by (cases n) (simp_all add: py_getitem_def)

lemma collect_results_error: "collect_results ts ms hits = Inl e \<Longrightarrow> e = IndexError"
proof (induction hits)
  case Nil
  then show ?case by simp
next
  case (Cons hit hits)
  obtain idx distance where "hit = (idx, distance)" by (cases hit)
  with Cons show ?case
    by (auto simp: py_getitem_def split: if_splits sum.splits)
qed

lemma search_hits:
  assumes "length q = ix_d ix" and "0 < k"
  shows "\<exists>hits. IndexFlatL2_search ix q k = Inr hits \<and> length hits = nat k
      \<and> list_all (\<lambda>hit. - 1 \<le> fst hit \<and> fst hit < int (length (ix_xb ix))) hits"
proof -
  let ?scored = "zip (map int [0..<length (ix_xb ix)]) (map (fvec_L2sqr q) (ix_xb ix))"
  let ?near = "take (nat k) (sort_key snd ?scored)"
  have "set ?near \<subseteq> set ?scored"
    by (metis set_take_subset set_sort)
  moreover have "\<forall>hit \<in> set ?scored. 0 \<le> fst hit \<and> fst hit < int (length (ix_xb ix))"
    by (auto simp: set_zip)
  ultimately have near: "\<forall>hit \<in> set ?near. - 1 \<le> fst hit \<and> fst hit < int (length (ix_xb ix))"
    by fastforce
  have len: "length ?near = min (nat k) (length (ix_xb ix))" by simp
  show ?thesis using assms near len
    by (auto simp: IndexFlatL2_search_def Let_def list_all_iff min_def)
qed

lemma empty_store_raises:
  "texts s = [] \<Longrightarrow> ix_xb (index s) = [] \<Longrightarrow> length q = ix_d (index s) \<Longrightarrow> 0 < k
     \<Longrightarrow> similarity_search s q k = Inl IndexError"
  by (simp add: similarity_search_def IndexFlatL2_search_def collect_results_empty_store)

lemma nonempty_store_returns:
  assumes "texts s \<noteq> []" and "well_formed s" and "length q = ix_d (index s)" and "0 < k"
  shows "\<exists>hits. IndexFlatL2_search (index s) q k = Inr hits \<and> length hits = nat k
           \<and> similarity_search s q k = Inr (map (as_result (texts s) (metadatas s)) hits)"
proof -
  obtain hits where h: "IndexFlatL2_search (index s) q k = Inr hits" "length hits = nat k"
     "list_all (\<lambda>hit. - 1 \<le> fst hit \<and> fst hit < int (length (ix_xb (index s)))) hits"
    using search_hits[OF assms(3,4)] by blast
  have "collect_results (texts s) (metadatas s) hits
          = Inr (map (as_result (texts s) (metadatas s)) hits)"
    using collect_results_aligned[of "texts s" "metadatas s" hits] assms(1,2) h(3)
    by (simp add: well_formed_def)
  then show ?thesis using h by (simp add: similarity_search_def)
qed

lemma similarity_search_error:
  "similarity_search s q k = Inl e \<Longrightarrow> e = IndexError \<or> e = AssertionError"
  by (auto simp: similarity_search_def IndexFlatL2_search_def Let_def
      dest: collect_results_error split: if_splits sum.splits)

lemma similarity_search_same:
  assumes "index s = index t" "texts s = texts t" "metadatas s = metadatas t"
  shows "similarity_search s q k = similarity_search t q k"
  unfolding similarity_search_def assms ..

section \<open>The length of a search result\<close>

text \<open>
  C2. The claim: a search for \<open>k\<close> results on an index of \<open>N\<close> documents returns
  \<open>min k N\<close> results, every stored document once when \<open>N < k\<close>. On the store with the
  single document \<^verbatim>\<open>Louvre\<close> a search for two results returns two: the label \<open>-1\<close> of
  the missing second hit passes the test \<^verbatim>\<open>idx < len(self.texts)\<close> and reads
  \<^verbatim>\<open>self.texts[-1]\<close>, the last document, a second time.
\<close>

theorem similarity_search_short_index:
  "similarity_search louvre_store [0] 2 =
     Inr [\<lparr>doc_text = ''Louvre'', doc_metadata = empty_metadata, doc_score = 1\<rparr>,
          \<lparr>doc_text = ''Louvre'', doc_metadata = empty_metadata,
           doc_score = 1 / (1 + FLT_MAX)\<rparr>]"
  by (simp add: similarity_search_def IndexFlatL2_search_def louvre_store_def
      fvec_L2sqr_def py_getitem_def)

section \<open>Scores and distances\<close>

text \<open>
  C3. The claim: the results are in order of non-increasing score, and the score of each
  result is \<open>1 / (1 + d)\<close> for its squared distance \<open>d\<close> to the query. On the store with
  \<^verbatim>\<open>Louvre\<close> at distance 0 and \<^verbatim>\<open>Orsay\<close> at distance 9 a search for three results
  returns \<^verbatim>\<open>Orsay\<close> twice, the second time with the score of the padding distance and not
  \<open>1 / (1 + 9)\<close>.
\<close>

theorem similarity_search_padding_score:
  "similarity_search two_store [0] 3 =
     Inr [\<lparr>doc_text = ''Louvre'', doc_metadata = empty_metadata, doc_score = 1\<rparr>,
          \<lparr>doc_text = ''Orsay'', doc_metadata = empty_metadata, doc_score = 1 / 10\<rparr>,
          \<lparr>doc_text = ''Orsay'', doc_metadata = empty_metadata,
           doc_score = 1 / (1 + FLT_MAX)\<rparr>]
   \<and> fvec_L2sqr [0] (ix_xb (index two_store) ! 1) = 9
   \<and> 1 / (1 + FLT_MAX) \<noteq> 1 / (1 + (9::real))"
  by (simp add: similarity_search_def IndexFlatL2_search_def two_store_def
      fvec_L2sqr_def py_getitem_def FLT_MAX_def)

section \<open>Saving and loading a store\<close>

lemma load_after_save:
  "FAISSVectorStore_load (FAISSVectorStore_save fs s path) t path
     = (None, t\<lparr>index := index s, texts := texts s, metadatas := metadatas s\<rparr>)"
  by (simp add: FAISSVectorStore_load_def FAISSVectorStore_save_def files_at_def read_index_def
      json_load_def)

text \<open>
  C4. After any sequence of \<^verbatim>\<open>add_documents\<close> calls on a new store, saving the store
  and loading the saved files into a new store of the same dimension raises nothing, and
  every search on the loaded store has the outcome of the same search on the original.
\<close>

theorem save_load_round_trip:
  "fst (FAISSVectorStore_load
          (FAISSVectorStore_save fs (add_calls (FAISSVectorStore_init dm) calls) path)
          (FAISSVectorStore_init dm) path) = None
   \<and> similarity_search
        (snd (FAISSVectorStore_load
                (FAISSVectorStore_save fs (add_calls (FAISSVectorStore_init dm) calls) path)
                (FAISSVectorStore_init dm) path)) q k
     = similarity_search (add_calls (FAISSVectorStore_init dm) calls) q k"
proof -
  let ?s = "add_calls (FAISSVectorStore_init dm) calls"
  let ?t = "FAISSVectorStore_init dm\<lparr>index := index ?s, texts := texts ?s,
              metadatas := metadatas ?s\<rparr>"
  have l: "FAISSVectorStore_load (FAISSVectorStore_save fs ?s path) (FAISSVectorStore_init dm) path
             = (None, ?t)"
    by (rule load_after_save)
  have "similarity_search ?t q k = similarity_search ?s q k"
    by (rule similarity_search_same) simp_all
  with l show ?thesis by simp
qed

section \<open>The attraction filter\<close>

lemma missing_tag_lacks:
  "f_required_tags f = Some required \<Longrightarrow> tag \<in> set required \<Longrightarrow> tag \<notin> set (tags_of m)
     \<Longrightarrow> lacks_required_tag f m"
  by (auto simp: lacks_required_tag_def list_all_iff)

lemma passes_has_required:
  "attraction_passes f c \<Longrightarrow> \<not> lacks_required_tag f (doc_metadata c)"
  by (simp add: attraction_passes_def Let_def split: if_splits)

lemma no_tags_not_excluded: "tags_of m = [] \<Longrightarrow> \<not> has_excluded_tag f m"
  by (simp add: has_excluded_tag_def list_ex_iff split: option.splits)

lemma passes_without_excluded_key:
  "\<not> has_excluded_tag f (doc_metadata c)
     \<Longrightarrow> attraction_passes (f\<lparr>f_excluded_tags := None\<rparr>) c = attraction_passes f c"
  by (simp add: attraction_passes_def Let_def has_excluded_tag_def exceeds_max_price_def
      outside_categories_def lacks_required_tag_def)

text \<open>
  C6. A candidate that lacks one of the required tags is not in the filtered result,
  whatever the other keys of the filter record and the rest of its metadata. A candidate
  whose tag list is empty or absent is not skipped by the test of the excluded tags: it is
  in the filtered result exactly when it is in the result of the same record without the
  key \<^verbatim>\<open>excluded_tags\<close>.
\<close>

theorem attraction_filter_tags:
  "(f_required_tags f = Some required \<and> tag \<in> set required
      \<and> tag \<notin> set (tags_of (doc_metadata c))
      \<longrightarrow> c \<notin> set (AttractionRetriever_apply_filters results f))
   \<and> (tags_of (doc_metadata c) = []
      \<longrightarrow> \<not> has_excluded_tag f (doc_metadata c)
        \<and> (c \<in> set (AttractionRetriever_apply_filters results f)
             \<longleftrightarrow> c \<in> set (AttractionRetriever_apply_filters results
                                (f\<lparr>f_excluded_tags := None\<rparr>))))"
proof (intro conjI impI)
  assume "f_required_tags f = Some required \<and> tag \<in> set required
            \<and> tag \<notin> set (tags_of (doc_metadata c))"
  then have "lacks_required_tag f (doc_metadata c)"
    using missing_tag_lacks by blast
  then have "\<not> attraction_passes f c"
    using passes_has_required by blast
  then show "c \<notin> set (AttractionRetriever_apply_filters results f)"
    by (simp add: AttractionRetriever_apply_filters_def)
next
  assume "tags_of (doc_metadata c) = []"
  then show "\<not> has_excluded_tag f (doc_metadata c)"
    by (rule no_tags_not_excluded)
next
  assume "tags_of (doc_metadata c) = []"
  then have "\<not> has_excluded_tag f (doc_metadata c)"
    by (rule no_tags_not_excluded)
  then show "(c \<in> set (AttractionRetriever_apply_filters results f))
     = (c \<in> set (AttractionRetriever_apply_filters results (f\<lparr>f_excluded_tags := None\<rparr>)))"
    by (simp add: AttractionRetriever_apply_filters_def passes_without_excluded_key)
qed

theorem attraction_filter_tags_witness:
  "museum \<notin> set (AttractionRetriever_apply_filters [museum, park] art_and_food)
   \<and> \<not> has_excluded_tag no_art (doc_metadata park)
   \<and> park \<in> set (AttractionRetriever_apply_filters [museum, park] no_art)"
proof -
  have h1: "f_required_tags art_and_food = Some [''art'', ''food'']
              \<and> ''food'' \<in> set [''art'', ''food'']
              \<and> ''food'' \<notin> set (tags_of (doc_metadata museum))"
    by (simp add: art_and_food_def museum_def tags_of_def)
  have h2: "tags_of (doc_metadata park) = []"
    by (simp add: park_def tags_of_def empty_metadata_def)
  have p: "park \<in> set (AttractionRetriever_apply_filters [museum, park]
                          (no_art\<lparr>f_excluded_tags := None\<rparr>))"
    by (simp add: AttractionRetriever_apply_filters_def attraction_passes_def park_def no_art_def
        no_filters_def empty_metadata_def exceeds_max_price_def outside_categories_def
        lacks_required_tag_def has_excluded_tag_def)
  from attraction_filter_tags[of art_and_food "[''art'', ''food'']" "''food''" museum
      "[museum, park]"] h1
  have a: "museum \<notin> set (AttractionRetriever_apply_filters [museum, park] art_and_food)"
    by blast
  from attraction_filter_tags[of no_art required tag park "[museum, park]"] h2 p
  have "\<not> has_excluded_tag no_art (doc_metadata park)
        \<and> park \<in> set (AttractionRetriever_apply_filters [museum, park] no_art)"
    by blast
  with a show ?thesis by blast
qed

section \<open>The food filter\<close>

lemma dietary_any:
  "f_dietary_restrictions f = Some required \<Longrightarrow> opt \<in> set required
     \<Longrightarrow> opt \<in> set (dietary_options_of m) \<Longrightarrow> \<not> lacks_dietary_option f m"
  by (auto simp: lacks_dietary_option_def list_ex_iff)

lemma budget_whitelist:
  "f_budget_level f = Some BUDGET
     \<Longrightarrow> outside_budget f m = (price_range_of m \<noteq> euro \<and> price_range_of m \<noteq> euro @ euro)"
  by (auto simp: outside_budget_def)

lemma luxury_blacklist:
  "f_budget_level f = Some LUXURY \<Longrightarrow> outside_budget f m = (price_range_of m = euro)"
  by (auto simp: outside_budget_def)

lemma euro_bands_differ:
  "euro @ euro @ euro \<noteq> euro" "euro @ euro @ euro \<noteq> euro @ euro"
  by (simp_all add: euro_def)

lemma price_range_on_schema:
  "md_price_range m \<in> {None, Some euro, Some (euro @ euro), Some (euro @ euro @ euro)}
     \<Longrightarrow> price_range_of m \<in> {euro, euro @ euro, euro @ euro @ euro}
       \<and> (price_range_of m = euro @ euro @ euro) = (md_price_range m = Some (euro @ euro @ euro))"
  by (auto simp: price_range_of_def euro_def)

lemma price_range_cheapest:
  "(price_range_of m = euro) = (md_price_range m = Some euro)"
  by (auto simp: price_range_of_def euro_def split: option.splits)

text \<open>
  C7. A candidate is in the filtered result exactly when it is a candidate that none of
  the three tests skips. The dietary test does not skip a candidate that offers at least
  one of the requested options, whether or not it offers the others. On the price bands
  of the ingestion schema (one, two or three euro signs, or no band stored, which counts
  as two) the budget test with the tier \<^verbatim>\<open>BUDGET\<close> skips exactly the candidates in the
  band of three euro signs; with the tier \<^verbatim>\<open>LUXURY\<close> it skips exactly the candidates
  in the band of one euro sign. For any stored band, \<^verbatim>\<open>BUDGET\<close> skips exactly what is
  neither one nor two euro signs.
\<close>

theorem food_filter_dietary_and_budget:
  "(c \<in> set (FoodRetriever_apply_filters results f)
      \<longleftrightarrow> c \<in> set results \<and> \<not> lacks_dietary_option f (doc_metadata c)
            \<and> \<not> outside_budget f (doc_metadata c) \<and> \<not> lacks_cuisine f (doc_metadata c))
   \<and> (f_dietary_restrictions f = Some required \<and> opt \<in> set required
        \<and> opt \<in> set (dietary_options_of m) \<longrightarrow> \<not> lacks_dietary_option f m)
   \<and> (f_budget_level f = Some BUDGET
        \<longrightarrow> outside_budget f m = (price_range_of m \<noteq> euro \<and> price_range_of m \<noteq> euro @ euro))
   \<and> (f_budget_level f = Some BUDGET
        \<and> price_range_of m \<in> {euro, euro @ euro, euro @ euro @ euro}
        \<longrightarrow> outside_budget f m = (price_range_of m = euro @ euro @ euro))
   \<and> (f_budget_level f = Some LUXURY \<longrightarrow> outside_budget f m = (price_range_of m = euro))
   \<and> (f_budget_level f = Some BUDGET
        \<and> md_price_range m \<in> {None, Some euro, Some (euro @ euro), Some (euro @ euro @ euro)}
        \<longrightarrow> outside_budget f m = (md_price_range m = Some (euro @ euro @ euro)))
   \<and> (f_budget_level f = Some LUXURY
        \<longrightarrow> outside_budget f m = (md_price_range m = Some euro))"
proof (intro conjI impI)
  show "(c \<in> set (FoodRetriever_apply_filters results f))
      = (c \<in> set results \<and> \<not> lacks_dietary_option f (doc_metadata c)
            \<and> \<not> outside_budget f (doc_metadata c) \<and> \<not> lacks_cuisine f (doc_metadata c))"
    by (auto simp: FoodRetriever_apply_filters_def food_passes_def Let_def)
next
  assume "f_dietary_restrictions f = Some required \<and> opt \<in> set required
            \<and> opt \<in> set (dietary_options_of m)"
  then show "\<not> lacks_dietary_option f m"
    using dietary_any by blast
next
  assume "f_budget_level f = Some BUDGET"
  then show "outside_budget f m = (price_range_of m \<noteq> euro \<and> price_range_of m \<noteq> euro @ euro)"
    by (rule budget_whitelist)
next
  assume "f_budget_level f = Some BUDGET
            \<and> price_range_of m \<in> {euro, euro @ euro, euro @ euro @ euro}"
  then show "outside_budget f m = (price_range_of m = euro @ euro @ euro)"
    using euro_bands_differ by (auto simp: budget_whitelist)
next
  assume "f_budget_level f = Some LUXURY"
  then show "outside_budget f m = (price_range_of m = euro)"
    by (rule luxury_blacklist)
next
  assume a: "f_budget_level f = Some BUDGET
            \<and> md_price_range m \<in> {None, Some euro, Some (euro @ euro), Some (euro @ euro @ euro)}"
  then have "price_range_of m \<in> {euro, euro @ euro, euro @ euro @ euro}"
    and eq: "(price_range_of m = euro @ euro @ euro) = (md_price_range m = Some (euro @ euro @ euro))"
    using price_range_on_schema[of m] by blast+
  then have "outside_budget f m = (price_range_of m = euro @ euro @ euro)"
    using a euro_bands_differ by (auto simp: budget_whitelist)
  with eq show "outside_budget f m = (md_price_range m = Some (euro @ euro @ euro))"
    by simp
next
  assume "f_budget_level f = Some LUXURY"
  then show "outside_budget f m = (md_price_range m = Some euro)"
    by (simp add: luxury_blacklist price_range_cheapest)
qed

theorem food_filter_dietary_and_budget_witness:
  "\<not> lacks_dietary_option (no_filters\<lparr>f_dietary_restrictions := Some [''halal'', ''vegan'']\<rparr>)
        (doc_metadata (bistro euro))
   \<and> outside_budget (budget_only BUDGET) (doc_metadata (bistro (euro @ euro @ euro)))
   \<and> \<not> outside_budget (budget_only BUDGET) (doc_metadata (bistro (euro @ euro)))
   \<and> outside_budget (budget_only LUXURY) (doc_metadata (bistro euro))
   \<and> \<not> outside_budget (budget_only BUDGET) empty_metadata"
proof -
  let ?diet = "no_filters\<lparr>f_dietary_restrictions := Some [''halal'', ''vegan'']\<rparr>"
  have d: "f_dietary_restrictions ?diet = Some [''halal'', ''vegan'']
             \<and> ''vegan'' \<in> set [''halal'', ''vegan'']
             \<and> ''vegan'' \<in> set (dietary_options_of (doc_metadata (bistro euro)))"
    by (simp add: bistro_def dietary_options_of_def)
  have b: "f_budget_level (budget_only BUDGET) = Some BUDGET"
    and l: "f_budget_level (budget_only LUXURY) = Some LUXURY"
    by (simp_all add: budget_only_def)
  have p: "price_range_of (doc_metadata (bistro band)) = band" for band
    by (simp add: bistro_def price_range_of_def)
  have b3: "f_budget_level (budget_only BUDGET) = Some BUDGET
              \<and> price_range_of (doc_metadata (bistro (euro @ euro @ euro)))
                  \<in> {euro, euro @ euro, euro @ euro @ euro}"
    using b p by simp
  from food_filter_dietary_and_budget[of c results ?diet "[''halal'', ''vegan'']" "''vegan''"
      "doc_metadata (bistro euro)"] d
  have w1: "\<not> lacks_dietary_option ?diet (doc_metadata (bistro euro))"
    by blast
  from food_filter_dietary_and_budget[of c results "budget_only BUDGET" required opt
      "doc_metadata (bistro (euro @ euro @ euro))"] b3 p
  have w2: "outside_budget (budget_only BUDGET) (doc_metadata (bistro (euro @ euro @ euro)))"
    by (simp add: euro_def)
  from food_filter_dietary_and_budget[of c results "budget_only BUDGET" required opt
      "doc_metadata (bistro (euro @ euro))"] b p
  have w3: "\<not> outside_budget (budget_only BUDGET) (doc_metadata (bistro (euro @ euro)))"
    by (simp add: euro_def)
  from food_filter_dietary_and_budget[of c results "budget_only LUXURY" required opt
      "doc_metadata (bistro euro)"] l p
  have w4: "outside_budget (budget_only LUXURY) (doc_metadata (bistro euro))"
    by simp
  have p0: "md_price_range empty_metadata = None"
    by (simp add: empty_metadata_def)
  have n0: "md_price_range empty_metadata \<noteq> Some (euro @ euro @ euro)"
    using p0 by simp
  have b0: "f_budget_level (budget_only BUDGET) = Some BUDGET
              \<and> md_price_range empty_metadata
                  \<in> {None, Some euro, Some (euro @ euro), Some (euro @ euro @ euro)}"
    using b p0 by simp
  from food_filter_dietary_and_budget[of c results "budget_only BUDGET" required opt
      empty_metadata] b0 n0
  have w5: "\<not> outside_budget (budget_only BUDGET) empty_metadata"
    by blast
  from w1 w2 w3 w4 w5 show ?thesis by blast
qed

section \<open>A food request without dietary restrictions\<close>

lemma empty_required_lacks:
  "f_dietary_restrictions f = Some [] \<Longrightarrow> lacks_dietary_option f m"
  by (simp add: lacks_dietary_option_def)

lemma food_filter_rejects_all:
  "dietary_restrictions prefs = [] \<Longrightarrow> FoodRetriever_apply_filters results (food_filters_of prefs) = []"
  by (simp add: FoodRetriever_apply_filters_def food_passes_def empty_required_lacks food_filters_of_def)

lemma food_filters_not_empty: "food_filters_of prefs \<noteq> no_filters"
proof
  assume "food_filters_of prefs = no_filters"
  then have "f_budget_level (food_filters_of prefs) = f_budget_level no_filters" by simp
  then show False by (simp add: food_filters_of_def no_filters_def)
qed

lemma py_prefix_Nil: "py_prefix [] k = []"
  by (simp add: py_prefix_def)

lemma retrieve_food_cases:
  "source_type r = FOOD \<Longrightarrow> dietary_restrictions prefs = [] \<Longrightarrow>
     retrieve embed_fn r q k (Some (food_filters_of prefs)) =
       (case similarity_search (vector_store r) (embed_fn q) (k * 2) of Inl e \<Rightarrow> Inl e | Inr results \<Rightarrow> Inr [])"
  by (simp add: retrieve_def food_filters_not_empty food_filter_rejects_all py_prefix_Nil
      split: sum.splits)

lemma fresh_retriever_raises:
  "length (embed_fn q) = embedding_dimension \<Longrightarrow> 0 < k \<Longrightarrow>
     retrieve embed_fn (BaseRetriever_init src) q k fs = Inl IndexError"
  by (simp add: retrieve_def BaseRetriever_init_def FAISSVectorStore_init_def empty_store_raises)

text \<open>
  C10. The claim: with the key \<^verbatim>\<open>dietary_restrictions\<close> bound to an empty sequence the
  food retrieval returns the empty sequence, whatever the index holds. On the new food
  retriever, whose index holds nothing, the retrieval for a request without dietary
  restrictions returns no sequence: the search raises \<^verbatim>\<open>IndexError\<close> before the
  filter runs.
\<close>

theorem empty_index_food_retrieval_raises:
  "retrieve (embed_text zero_runtime) (BaseRetriever_init FOOD)
      (build_query plain_preferences FOOD) max_retrieval_results
      (Some (food_filters_of plain_preferences)) = Inl IndexError"
  by (simp add: fresh_retriever_raises zero_runtime_def max_retrieval_results_def)

section \<open>Loading a missing index\<close>

lemma load_missing: "fs (store_path r) = None \<Longrightarrow> BaseRetriever_load fs r = (False, r)"
  by (simp add: BaseRetriever_load_def)

text \<open>
  C9. The claim: after a failed load the retriever serves as an empty index. A new food
  retriever whose directory does not exist: \<^verbatim>\<open>load\<close> answers \<^verbatim>\<open>False\<close> and leaves
  the retriever as it was, and the next retrieval on it raises \<^verbatim>\<open>IndexError\<close>.
\<close>

theorem cold_start_retrieval_raises:
  "BaseRetriever_load Map.empty (BaseRetriever_init FOOD) = (False, BaseRetriever_init FOOD)
   \<and> retrieve (embed_text zero_runtime) (BaseRetriever_init FOOD) ''Paris''
        max_retrieval_results None = Inl IndexError"
  by (simp add: load_missing fresh_retriever_raises zero_runtime_def max_retrieval_results_def)

section \<open>Runs of the planning graph\<close>

lemma initial_channels:
  "apply_writes Map.empty (channel_writes (initial_state prefs)) =
     [''user_preferences'' \<mapsto> VPrefs prefs, ''errors'' \<mapsto> VStrs [], ''warnings'' \<mapsto> VStrs [],
      ''iteration_count'' \<mapsto> VInt 0]"
  by (simp add: apply_writes_def channel_writes_def initial_state_def PlannerState_keys_def)

lemma fresh_node_raises:
  assumes "\<And>q. length (embed_fn q) = embedding_dimension"
    and "st ''retrieval_strategy'' = Some (VStrategy strategy)"
    and "st ''user_preferences'' = Some (VPrefs prefs)"
    and "src \<noteq> TRANSPORT"
  shows "ParallelRetrieverNode_call embed_fn (ParallelRetrieverNode_init src) st = Inl IndexError"
proof -
  have r: "get_retriever MultiSourceRetriever_init src = Inr (BaseRetriever_init src)"
    using assms(4) by (cases src) (simp_all add: MultiSourceRetriever_init_def)
  show ?thesis
    using assms(1-3) r
    by (simp add: ParallelRetrieverNode_call_def ParallelRetrieverNode_init_def get_preferences_def
        fresh_retriever_raises max_retrieval_results_def Let_def)
qed

lemma first_step:
  "run_step rt planner_graph [''analyze_intent'']
      (apply_writes Map.empty (channel_writes (initial_state prefs)))
   = Inr [[(''parsed_intent'', VIntent (parse_intent prefs)),
           (''retrieval_strategy'',
              VStrategy \<lparr>sources = determine_sources prefs, strategy_filters = build_filters prefs,
                         priority = determine_priority prefs\<rparr>),
           (''errors'', VStrs []), (''warnings'', VStrs [])]]"
  by (simp add: initial_channels planner_graph_def build_planning_graph_def
      IntentAnalyzerNode_call_def get_preferences_def)

lemma second_step:
  assumes "\<And>q. length (embed_text rt q) = embedding_dimension"
    and "st ''retrieval_strategy'' = Some (VStrategy strategy)"
    and "st ''user_preferences'' = Some (VPrefs prefs)"
  shows "run_step rt planner_graph
      [''retrieve_attractions'', ''retrieve_food'', ''retrieve_tips'', ''retrieve_itineraries''] st
   = Inl IndexError"
  using assms
  by (simp add: planner_graph_def build_planning_graph_def nodes_at_import_def fresh_node_raises)

lemma planner_next1: "next_nodes planner_graph [''analyze_intent''] =
   [''retrieve_attractions'', ''retrieve_food'', ''retrieve_tips'', ''retrieve_itineraries'']"
  by (simp add: next_nodes_def planner_graph_def build_planning_graph_def END_def)

lemma pregel_loop_step:
  "0 < fuel \<Longrightarrow>
   pregel_loop rt g fuel (name # names) st dn =
     (case run_step rt g (name # names) st of
        Inl e \<Rightarrow> Inl e
      | Inr updates \<Rightarrow>
          (if distinct (map fst (concat (map channel_writes updates))) then
             pregel_loop rt g (fuel - 1) (next_nodes g (name # names))
               (apply_writes st (concat (map channel_writes updates))) (dn @ [name # names])
           else Inl InvalidUpdateError))"
  by (cases fuel) (simp_all add: Let_def del: run_step.simps split: sum.splits)

lemma workflow_raises:
  assumes "\<And>q. length (embed_text rt q) = embedding_dimension"
  shows "run_graph rt planner_graph (initial_state prefs) = Inl IndexError"
proof -
  have entry: "g_entry planner_graph = ''analyze_intent''"
    by (simp add: planner_graph_def build_planning_graph_def)
  let ?st0 = "apply_writes Map.empty (channel_writes (initial_state prefs))"
  let ?u = "[(''parsed_intent'', VIntent (parse_intent prefs)),
           (''retrieval_strategy'',
              VStrategy \<lparr>sources = determine_sources prefs, strategy_filters = build_filters prefs,
                         priority = determine_priority prefs\<rparr>),
           (''errors'', VStrs []), (''warnings'', VStrs [])]"
  have cw: "channel_writes ?u = ?u"
    by (simp add: channel_writes_def PlannerState_keys_def)
  let ?st1 = "apply_writes ?st0 ?u"
  have s1: "?st1 ''retrieval_strategy'' = Some (VStrategy \<lparr>sources = determine_sources prefs, strategy_filters = build_filters prefs,
                         priority = determine_priority prefs\<rparr>)"
     "?st1 ''user_preferences'' = Some (VPrefs prefs)"
    unfolding initial_channels by (simp_all add: apply_writes_def)
  have two: "run_step rt planner_graph
      [''retrieve_attractions'', ''retrieve_food'', ''retrieve_tips'', ''retrieve_itineraries''] ?st1
   = Inl IndexError"
    using second_step[OF assms s1] .
  show ?thesis
    unfolding run_graph_def entry recursion_limit_def
    by (simp add: pregel_loop_step first_step cw planner_next1 two del: run_step.simps)
qed

text \<open>
  C5. The claim: a run on the Paris request ends with a parsed intent, a strategy and an
  aggregated context. The graph as the module builds it, with an embedding model of the
  configured dimension: the retriever nodes search their own new, empty stores, and the
  run ends with \<^verbatim>\<open>IndexError\<close>.
\<close>

theorem paris_run_raises:
  "invoke zero_runtime planner_graph (initial_state paris_preferences) = Inl IndexError"
  by (simp add: invoke_def workflow_raises zero_runtime_def)

lemma retrieve_error: "retrieve embed_fn r q k fs = Inl e \<Longrightarrow> e = IndexError \<or> e = AssertionError"
  by (auto simp: retrieve_def dest: similarity_search_error split: sum.splits option.splits if_splits)

lemma get_preferences_error: "get_preferences st = Inl e \<Longrightarrow> e = KeyError \<or> e = AttributeError"
  by (auto simp: get_preferences_def split: option.splits pyval.splits)

lemma get_retriever_error: "get_retriever m src = Inl e \<Longrightarrow> e = KeyError"
  by (cases src) simp_all

lemma get_context_error: "get_context st key = Inl e \<Longrightarrow> e = TypeError"
  by (auto simp: get_context_def split: option.splits pyval.splits if_splits)

lemma retriever_node_error:
  "ParallelRetrieverNode_call embed_fn n st = Inl e \<Longrightarrow> e \<noteq> GraphRecursionError"
  by (auto simp: ParallelRetrieverNode_call_def Let_def
      dest: retrieve_error get_preferences_error get_retriever_error
      split: option.splits pyval.splits sum.splits)

lemma call_node_error: "call_node rt n st = Inl e \<Longrightarrow> e \<noteq> GraphRecursionError"
proof (cases n)
  case Analyzer
  then show "call_node rt n st = Inl e \<Longrightarrow> e \<noteq> GraphRecursionError"
    by (auto simp: IntentAnalyzerNode_call_def dest: get_preferences_error split: sum.splits)
next
  case (Retriever x2)
  then show "call_node rt n st = Inl e \<Longrightarrow> e \<noteq> GraphRecursionError"
    by (auto dest: retriever_node_error)
next
  case Aggregator
  then show "call_node rt n st = Inl e \<Longrightarrow> e \<noteq> GraphRecursionError"
    by (auto simp: ContextAggregatorNode_call_def dest: get_preferences_error get_context_error
        split: sum.splits)
qed

lemma run_step_error: "run_step rt g names st = Inl e \<Longrightarrow> e \<noteq> GraphRecursionError"
proof (induction names arbitrary: e)
  case Nil then show ?case by simp
next
  case (Cons name names)
  then show ?case
    by (auto dest: call_node_error split: option.splits sum.splits)
qed

lemma graph_next:
  "next_nodes (build_planning_graph ns) [''analyze_intent''] = retriever_names"
  "next_nodes (build_planning_graph ns) retriever_names = [''aggregate_context'']"
  "next_nodes (build_planning_graph ns) [''aggregate_context''] = []"
  by (simp_all add: next_nodes_def build_planning_graph_def END_def retriever_names_def)

lemma graph_entry: "g_entry (build_planning_graph ns) = ''analyze_intent''"
  by (simp add: build_planning_graph_def)

lemma retriever_names_ne: "retriever_names \<noteq> []"
  by (simp add: retriever_names_def)

lemma pregel_loop_unfold:
  "0 < fuel \<Longrightarrow> active \<noteq> [] \<Longrightarrow>
   pregel_loop rt g fuel active st dn =
     (case run_step rt g active st of
        Inl e \<Rightarrow> Inl e
      | Inr updates \<Rightarrow>
          (if distinct (map fst (concat (map channel_writes updates))) then
             pregel_loop rt g (fuel - 1) (next_nodes g active)
               (apply_writes st (concat (map channel_writes updates))) (dn @ [active])
           else Inl InvalidUpdateError))"
  by (cases active; cases fuel) (simp_all add: Let_def del: run_step.simps split: sum.splits)

lemma steps_fixed:
  "run_graph rt (build_planning_graph ns) input = Inr (st', steps)
     \<Longrightarrow> steps = [[''analyze_intent''], retriever_names, [''aggregate_context'']]"
  unfolding run_graph_def graph_entry recursion_limit_def
  by (auto simp: pregel_loop_unfold graph_next retriever_names_ne
      split: sum.splits if_splits simp del: run_step.simps)

lemma no_recursion_error:
  "run_graph rt (build_planning_graph ns) input \<noteq> Inl GraphRecursionError"
  unfolding run_graph_def graph_entry recursion_limit_def
  by (auto simp: pregel_loop_unfold graph_next retriever_names_ne
      split: sum.splits if_splits simp del: run_step.simps dest: run_step_error)

lemma collect_results_padding:
  "ts \<noteq> [] \<Longrightarrow> ms \<noteq> [] \<Longrightarrow>
   collect_results ts ms (replicate n (- 1, x))
     = Inr (replicate n \<lparr>doc_text = last ts, doc_metadata = last ms, doc_score = 1 / (1 + x)\<rparr>)"
  by (induction n) (simp_all add: getitem_last)

lemma sample_search:
  "similarity_search sample_store [0] 20 = Inr (sample_hit # replicate 19 sample_pad)"
  by (simp add: similarity_search_def IndexFlatL2_search_def sample_store_def fvec_L2sqr_def
      py_getitem_def collect_results_padding sample_hit_def sample_pad_def)

lemma duration_paris: "duration_of paris_preferences = 3"
  by (simp add: duration_of_def paris_preferences_def timedelta_days_def toordinal_def midnight_def
      days_before_year_def days_before_month_def DAYS_BEFORE_MONTH_def is_leap_def)

lemma paris_fields:
  "budget_level paris_preferences = BUDGET"
  "interests paris_preferences = [''art'', ''food'']"
  "avoid paris_preferences = []"
  "dietary_restrictions paris_preferences = [VEGETARIAN]"
  "destinations paris_preferences = [''Paris'']"
  "group_type paris_preferences = None"
  "walking_preference paris_preferences"
  by (simp_all add: paris_preferences_def)

lemma paris_filters:
  "attraction_filters_of paris_preferences
     = no_filters\<lparr>f_max_price := Some 10, f_required_tags := Some [''art'', ''food'']\<rparr>"
  "food_filters_of paris_preferences
     = no_filters\<lparr>f_dietary_restrictions := Some [VEGETARIAN], f_budget_level := Some BUDGET\<rparr>"
  "itinerary_filters_of paris_preferences = no_filters\<lparr>f_duration_days := Some 3\<rparr>"
  by (simp_all add: attraction_filters_of_def food_filters_of_def itinerary_filters_of_def
      paris_fields duration_paris)

lemma sample_passes:
  "attraction_passes (attraction_filters_of paris_preferences) sample_hit"
  "attraction_passes (attraction_filters_of paris_preferences) sample_pad"
  "food_passes (food_filters_of paris_preferences) sample_hit"
  "food_passes (food_filters_of paris_preferences) sample_pad"
  "itinerary_passes (itinerary_filters_of paris_preferences) sample_hit"
  "itinerary_passes (itinerary_filters_of paris_preferences) sample_pad"
  unfolding paris_filters
  by (simp_all add: attraction_passes_def food_passes_def itinerary_passes_def
      sample_hit_def sample_pad_def sample_metadata_def no_filters_def
      exceeds_max_price_def outside_categories_def lacks_required_tag_def has_excluded_tag_def
      tags_of_def lacks_dietary_option_def dietary_options_of_def outside_budget_def
      price_range_of_def lacks_cuisine_def other_destination_def duration_too_far_def
      VEGETARIAN_def empty_metadata_def)

lemma filters_nonempty:
  "attraction_filters_of paris_preferences \<noteq> no_filters"
  "itinerary_filters_of prefs \<noteq> no_filters"
proof -
  have "f_max_price (attraction_filters_of paris_preferences) \<noteq> f_max_price no_filters"
    by (simp add: paris_filters no_filters_def)
  then show "attraction_filters_of paris_preferences \<noteq> no_filters" by auto
  have "f_duration_days (itinerary_filters_of prefs) \<noteq> f_duration_days no_filters"
    by (simp add: itinerary_filters_of_def no_filters_def)
  then show "itinerary_filters_of prefs \<noteq> no_filters" by auto
qed

lemma sample_retrieve:
  "src \<noteq> TRANSPORT \<Longrightarrow>
   retrieve (\<lambda>q. [0]) (sample_retriever src) q max_retrieval_results
     (Some (case map_of (build_filters paris_preferences) src of None \<Rightarrow> no_filters | Some f \<Rightarrow> f))
   = Inr sample_results"
  by (cases src)
     (simp_all add: retrieve_def sample_retriever_def max_retrieval_results_def sample_search
      build_filters_def py_prefix_def sample_results_def sample_passes filters_nonempty
      food_filters_not_empty BaseRetriever_init_def
      AttractionRetriever_apply_filters_def FoodRetriever_apply_filters_def
      ItineraryRetriever_apply_filters_def)

lemma sample_get_retriever:
  "src \<noteq> TRANSPORT \<Longrightarrow> get_retriever sample_coordinator src = Inr (sample_retriever src)"
  by (cases src) (simp_all add: sample_coordinator_def)

lemma sample_node_call:
  assumes "st ''retrieval_strategy'' = Some (VStrategy paris_strategy)"
    and "st ''user_preferences'' = Some (VPrefs paris_preferences)"
    and "src \<noteq> TRANSPORT"
  shows "ParallelRetrieverNode_call (\<lambda>q. [0]) (sample_node src) st
           = Inr [(context_key src, VDocs sample_results)]"
  using assms
  by (simp add: ParallelRetrieverNode_call_def get_preferences_def sample_node_def Let_def
      sample_get_retriever sample_retrieve paris_strategy_def)

lemma context_keys:
  "context_key ATTRACTIONS = ''attractions_context''"
  "context_key FOOD = ''food_context''"
  "context_key TIPS = ''tips_context''"
  "context_key ITINERARIES = ''itineraries_context''"
  "context_key TRANSPORT = ''transport_context''"
  by (simp_all add: context_key_def)

lemma sample_retrieval_step:
  assumes "st ''retrieval_strategy'' = Some (VStrategy paris_strategy)"
    and "st ''user_preferences'' = Some (VPrefs paris_preferences)"
  shows "run_step unit_runtime (build_planning_graph sample_nodes) retriever_names st
     = Inr [[(''attractions_context'', VDocs sample_results)],
            [(''food_context'', VDocs sample_results)],
            [(''tips_context'', VDocs sample_results)],
            [(''itineraries_context'', VDocs sample_results)]]"
  using assms
  by (simp add: retriever_names_def build_planning_graph_def sample_nodes_def unit_runtime_def
      sample_node_call context_keys)

lemma sample_run:
  assumes "st0 = apply_writes Map.empty (channel_writes input)"
    and "st0 ''user_preferences'' = Some (VPrefs paris_preferences)"
    and "st0 ''attractions_context'' = None" "st0 ''food_context'' = None"
        "st0 ''tips_context'' = None" "st0 ''itinerary_context'' = None"
  shows "run_graph unit_runtime (build_planning_graph sample_nodes) input =
     Inr (st0(''parsed_intent'' \<mapsto> VIntent (parse_intent paris_preferences),
              ''retrieval_strategy'' \<mapsto> VStrategy paris_strategy,
              ''errors'' \<mapsto> (case st0 ''errors'' of None \<Rightarrow> VStrs [] | Some v \<Rightarrow> v),
              ''warnings'' \<mapsto> (case st0 ''warnings'' of None \<Rightarrow> VStrs [] | Some v \<Rightarrow> v),
              ''attractions_context'' \<mapsto> VDocs sample_results,
              ''food_context'' \<mapsto> VDocs sample_results,
              ''tips_context'' \<mapsto> VDocs sample_results,
              ''aggregated_context'' \<mapsto>
                 VStr (build_context_string plain_rendering sample_results sample_results
                         sample_results [] paris_preferences)),
          [[''analyze_intent''], retriever_names, [''aggregate_context'']])"
proof -
  let ?g = "build_planning_graph sample_nodes"
  let ?u1 = "[(''parsed_intent'', VIntent (parse_intent paris_preferences)),
              (''retrieval_strategy'', VStrategy paris_strategy),
              (''errors'', (case st0 ''errors'' of None \<Rightarrow> VStrs [] | Some v \<Rightarrow> v)),
              (''warnings'', (case st0 ''warnings'' of None \<Rightarrow> VStrs [] | Some v \<Rightarrow> v))]"
  have step1: "run_step unit_runtime ?g [''analyze_intent''] st0 = Inr [?u1]"
    using assms(2)
    by (simp add: build_planning_graph_def IntentAnalyzerNode_call_def get_preferences_def
        paris_strategy_def)
  have cw1: "channel_writes ?u1 = ?u1"
    by (simp add: channel_writes_def PlannerState_keys_def)
  let ?st1 = "apply_writes st0 ?u1"
  have st1: "?st1 ''retrieval_strategy'' = Some (VStrategy paris_strategy)"
    "?st1 ''user_preferences'' = Some (VPrefs paris_preferences)"
    using assms(2) by (simp_all add: apply_writes_def)
  let ?u2 = "[[(''attractions_context'', VDocs sample_results)],
            [(''food_context'', VDocs sample_results)],
            [(''tips_context'', VDocs sample_results)],
            [(''itineraries_context'', VDocs sample_results)]]"
  have step2: "run_step unit_runtime ?g retriever_names ?st1 = Inr ?u2"
    using sample_retrieval_step[OF st1] .
  let ?w2 = "[(''attractions_context'', VDocs sample_results),
            (''food_context'', VDocs sample_results),
            (''tips_context'', VDocs sample_results)]"
  have cw2: "concat (map channel_writes ?u2) = ?w2"
    by (simp add: channel_writes_def PlannerState_keys_def)
  let ?st2 = "apply_writes ?st1 ?w2"
  let ?u3 = "[(''aggregated_context'',
                 VStr (build_context_string plain_rendering sample_results sample_results
                         sample_results [] paris_preferences))]"
  have nonempty: "sample_results \<noteq> []" by (simp add: sample_results_def)
  have step3: "run_step unit_runtime ?g [''aggregate_context''] ?st2 = Inr [?u3]"
    using assms(2,6) nonempty
    by (simp add: build_planning_graph_def ContextAggregatorNode_call_def get_preferences_def
        get_context_def apply_writes_def unit_runtime_def)
  have cw3: "channel_writes ?u3 = ?u3"
    by (simp add: channel_writes_def PlannerState_keys_def)
  have final: "apply_writes ?st2 ?u3 =
      st0(''parsed_intent'' \<mapsto> VIntent (parse_intent paris_preferences),
              ''retrieval_strategy'' \<mapsto> VStrategy paris_strategy,
              ''errors'' \<mapsto> (case st0 ''errors'' of None \<Rightarrow> VStrs [] | Some v \<Rightarrow> v),
              ''warnings'' \<mapsto> (case st0 ''warnings'' of None \<Rightarrow> VStrs [] | Some v \<Rightarrow> v),
              ''attractions_context'' \<mapsto> VDocs sample_results,
              ''food_context'' \<mapsto> VDocs sample_results,
              ''tips_context'' \<mapsto> VDocs sample_results,
              ''aggregated_context'' \<mapsto>
                 VStr (build_context_string plain_rendering sample_results sample_results
                         sample_results [] paris_preferences))"
    by (simp add: apply_writes_def)
  have l3: "pregel_loop unit_runtime ?g 23 [''aggregate_context''] ?st2
              [[''analyze_intent''], retriever_names]
            = Inr (apply_writes ?st2 ?u3,
                   [[''analyze_intent''], retriever_names, [''aggregate_context'']])"
    by (simp add: pregel_loop_unfold graph_next step3 cw3 del: run_step.simps)
  have "pregel_loop unit_runtime ?g 24 retriever_names ?st1 [[''analyze_intent'']]
          = (case run_step unit_runtime ?g retriever_names ?st1 of
               Inl e \<Rightarrow> Inl e
             | Inr updates \<Rightarrow>
                 (if distinct (map fst (concat (map channel_writes updates))) then
                    pregel_loop unit_runtime ?g (24 - 1) (next_nodes ?g retriever_names)
                      (apply_writes ?st1 (concat (map channel_writes updates)))
                      ([[''analyze_intent'']] @ [retriever_names])
                  else Inl InvalidUpdateError))"
    by (rule pregel_loop_unfold) (simp_all add: retriever_names_ne)
  also have "\<dots> = Inr (apply_writes ?st2 ?u3,
                   [[''analyze_intent''], retriever_names, [''aggregate_context'']])"
    unfolding step2 sum.case cw2 by (simp add: graph_next l3)
  finally have l2: "pregel_loop unit_runtime ?g 24 retriever_names ?st1 [[''analyze_intent'']]
            = Inr (apply_writes ?st2 ?u3,
                   [[''analyze_intent''], retriever_names, [''aggregate_context'']])" .
  have l1: "pregel_loop unit_runtime ?g 25 [''analyze_intent''] st0 []
            = Inr (apply_writes ?st2 ?u3,
                   [[''analyze_intent''], retriever_names, [''aggregate_context'']])"
    by (simp add: pregel_loop_unfold graph_next step1 cw1 l2 del: run_step.simps)
  show ?thesis
    unfolding run_graph_def graph_entry recursion_limit_def assms(1)[symmetric] l1 final ..
qed

section \<open>The key a retriever node writes\<close>

text \<open>
  C1. The claim: each retriever node writes the result field of its category, which the
  aggregation reads. The node of the itineraries writes the key
  \<^verbatim>\<open>itineraries_context\<close>; the state declares and the aggregation reads
  \<^verbatim>\<open>itinerary_context\<close>. On a store that holds a matching itinerary the node returns
  its ten documents under a key that is no channel of the state, and the aggregation
  finds no itinerary.
\<close>

theorem itineraries_key_not_read:
  "context_key ITINERARIES = ''itineraries_context''
   \<and> ''itineraries_context'' \<notin> set PlannerState_keys
   \<and> ''itineraries_context'' \<notin> set aggregated_keys
   \<and> ParallelRetrieverNode_call (embed_text unit_runtime) (sample_node ITINERARIES)
        (analyzed_state paris_preferences)
       = Inr [(''itineraries_context'', VDocs sample_results)]
   \<and> sample_results \<noteq> []
   \<and> get_context
        (apply_writes (analyzed_state paris_preferences)
           (channel_writes [(''itineraries_context'', VDocs sample_results)]))
        ''itinerary_context'' = Inr []"
proof -
  have call: "ParallelRetrieverNode_call (embed_text unit_runtime) (sample_node ITINERARIES)
        (analyzed_state paris_preferences)
       = Inr [(''itineraries_context'', VDocs sample_results)]"
    using sample_node_call[of "analyzed_state paris_preferences" ITINERARIES]
    by (simp add: analyzed_state_def paris_strategy_def unit_runtime_def context_keys)
  show ?thesis
    using call
    by (simp add: context_keys PlannerState_keys_def aggregated_keys_def sample_results_def
        channel_writes_def apply_writes_def get_context_def analyzed_state_def)
qed

section \<open>Replanning\<close>

lemma replanning_channels:
  "apply_writes Map.empty (channel_writes replanning_input) =
     [''user_preferences'' \<mapsto> VPrefs paris_preferences, ''errors'' \<mapsto> VStrs [],
      ''warnings'' \<mapsto> VStrs [], ''iteration_count'' \<mapsto> VInt 0,
      ''needs_replanning'' \<mapsto> VBool True]"
  by (simp add: apply_writes_def channel_writes_def initial_state_def replanning_input_def
      PlannerState_keys_def)

text \<open>
  C8, as stated, fails: a run whose input asks for replanning on its first iteration
  ends after the aggregation step, although \<^verbatim>\<open>should_replan\<close> answers
  \<^verbatim>\<open>generate\<close> on its final state. The retriever nodes are the sample nodes, whose
  stores are not empty.
\<close>

theorem replanning_edge_counterexample:
  "steps_of (run_graph unit_runtime (build_planning_graph sample_nodes) replanning_input)
     = Some [[''analyze_intent''], retriever_names, [''aggregate_context'']]
   \<and> replan_after (run_graph unit_runtime (build_planning_graph sample_nodes) replanning_input)
     = Some (Inr ''generate'')"
proof -
  let ?st0 = "apply_writes Map.empty (channel_writes replanning_input)"
  have run: "run_graph unit_runtime (build_planning_graph sample_nodes) replanning_input =
     Inr (?st0(''parsed_intent'' \<mapsto> VIntent (parse_intent paris_preferences),
              ''retrieval_strategy'' \<mapsto> VStrategy paris_strategy,
              ''errors'' \<mapsto> (case ?st0 ''errors'' of None \<Rightarrow> VStrs [] | Some v \<Rightarrow> v),
              ''warnings'' \<mapsto> (case ?st0 ''warnings'' of None \<Rightarrow> VStrs [] | Some v \<Rightarrow> v),
              ''attractions_context'' \<mapsto> VDocs sample_results,
              ''food_context'' \<mapsto> VDocs sample_results,
              ''tips_context'' \<mapsto> VDocs sample_results,
              ''aggregated_context'' \<mapsto>
                 VStr (build_context_string plain_rendering sample_results sample_results
                         sample_results [] paris_preferences)),
          [[''analyze_intent''], retriever_names, [''aggregate_context'']])"
    by (rule sample_run) (simp_all add: replanning_channels)
  show ?thesis
    unfolding run by (simp add: steps_of_def replan_after_def should_replan_def replanning_channels)
qed

lemma should_replan_typed:
  "st ''needs_replanning'' = Some (VBool b) \<Longrightarrow> st ''iteration_count'' = Some (VInt n)
     \<Longrightarrow> should_replan st = Inr (if b \<and> n < 3 then ''generate'' else ''end'')"
  by (simp add: should_replan_def)

lemma should_replan_defaults:
  "st ''needs_replanning'' = None \<Longrightarrow> should_replan st = Inr ''end''"
  "st ''needs_replanning'' = Some (VBool True) \<Longrightarrow> st ''iteration_count'' = None
     \<Longrightarrow> should_replan st = Inr ''generate''"
  by (simp_all add: should_replan_def)

lemma should_replan_no_count:
  "st ''needs_replanning'' = Some (VBool b) \<Longrightarrow> st ''iteration_count'' = None
     \<Longrightarrow> should_replan st = Inr (if b then ''generate'' else ''end'')"
  by (simp add: should_replan_def)

text \<open>
  C8, amended. \<^verbatim>\<open>should_replan\<close> answers \<^verbatim>\<open>generate\<close> exactly when the state asks
  for replanning and its iteration count is below three, and \<^verbatim>\<open>end\<close> otherwise (also
  when the state does not say; an absent count is zero). The graph does not use it: no node is named
  \<^verbatim>\<open>generate\<close>, the only edge out of the aggregation leads to the end, every run that
  returns has run the three steps analysis, retrieval and aggregation once, and no run
  exhausts the recursion limit. So no run executes a replanning cycle.
\<close>

theorem replanning_not_wired:
  "(st ''needs_replanning'' = Some (VBool b) \<and> st ''iteration_count'' = Some (VInt n)
      \<longrightarrow> should_replan st = Inr (if b \<and> n < 3 then ''generate'' else ''end''))
   \<and> (st ''needs_replanning'' = None \<longrightarrow> should_replan st = Inr ''end'')
   \<and> (st ''needs_replanning'' = Some (VBool b) \<and> st ''iteration_count'' = None
      \<longrightarrow> should_replan st = Inr (if b then ''generate'' else ''end''))
   \<and> next_nodes (build_planning_graph ns) [''aggregate_context''] = []
   \<and> ''generate'' \<notin> set (map fst (g_nodes (build_planning_graph ns)))
   \<and> (run_graph rt (build_planning_graph ns) input = Inr (st', steps)
        \<longrightarrow> steps = [[''analyze_intent''], retriever_names, [''aggregate_context'']])
   \<and> run_graph rt (build_planning_graph ns) input \<noteq> Inl GraphRecursionError"
  using should_replan_typed[of st b n] should_replan_defaults(1)[of st]
    should_replan_no_count[of st b] graph_next(3)[of ns] steps_fixed[of rt ns input st' steps] no_recursion_error[of rt ns input]
  by (simp add: build_planning_graph_def)

theorem replanning_not_wired_witness:
  "should_replan [''needs_replanning'' \<mapsto> VBool True, ''iteration_count'' \<mapsto> VInt 3] = Inr ''end''
   \<and> should_replan [''needs_replanning'' \<mapsto> VBool True, ''iteration_count'' \<mapsto> VInt 2] = Inr ''generate''
   \<and> steps_of (run_graph unit_runtime (build_planning_graph sample_nodes)
        (initial_state paris_preferences))
      = Some [[''analyze_intent''], retriever_names, [''aggregate_context'']]"
proof -
  let ?three = "[''needs_replanning'' \<mapsto> VBool True, ''iteration_count'' \<mapsto> VInt 3]"
  let ?two = "[''needs_replanning'' \<mapsto> VBool True, ''iteration_count'' \<mapsto> VInt 2]"
  obtain st' steps where run:
    "run_graph unit_runtime (build_planning_graph sample_nodes) (initial_state paris_preferences)
       = Inr (st', steps)"
    using sample_run[of "apply_writes Map.empty (channel_writes (initial_state paris_preferences))"
        "initial_state paris_preferences"]
    by (simp add: initial_channels)
  from replanning_not_wired[of ?three True 3 sample_nodes unit_runtime
      "initial_state paris_preferences" st' steps] run
  have a: "should_replan ?three = Inr ''end''"
    and s: "steps = [[''analyze_intent''], retriever_names, [''aggregate_context'']]"
    by simp_all
  from replanning_not_wired[of ?two True 2 sample_nodes unit_runtime
      "initial_state paris_preferences" st' steps]
  have b: "should_replan ?two = Inr ''generate''"
    by simp
  from a b s run show ?thesis by (simp add: steps_of_def)
qed

chapter \<open>Further properties\<close>

section \<open>Searches within the size of the index\<close>

lemma insort_tie_ordered:
  "sorted (map snd ys) \<Longrightarrow> tie_ordered ys \<Longrightarrow> list_all (\<lambda>y. fst x < fst y) ys
     \<Longrightarrow> tie_ordered (insort_key snd x ys)"
proof (induction ys)
  case Nil
  then show ?case by (simp add: tie_ordered_def)
next
  case (Cons y ys)
  show ?case
  proof (cases "snd x \<le> snd y")
    case True
    have "\<forall>z \<in> set (y # ys). snd x \<le> snd z"
      using True Cons.prems(1) by auto
    moreover have "\<forall>z \<in> set (y # ys). fst x < fst z"
      using Cons.prems(3) by (auto simp: list_all_iff)
    ultimately have "\<forall>z \<in> set (y # ys). snd x < snd z \<or> (snd x = snd z \<and> fst x < fst z)"
      by fastforce
    then show ?thesis
      using True Cons.prems(2) by (simp add: tie_ordered_def)
  next
    case False
    have ih: "tie_ordered (insort_key snd x ys)"
      using Cons by (simp add: tie_ordered_def)
    have "\<forall>z \<in> set (insort_key snd x ys). snd y < snd z \<or> (snd y = snd z \<and> fst y < fst z)"
      using False Cons.prems(2) by (auto simp: tie_ordered_def set_insort_key)
    then show ?thesis
      using False ih by (simp add: tie_ordered_def)
  qed
qed

lemma sort_key_tie_ordered:
  "sorted_wrt (\<lambda>a b. fst a < fst b) xs \<Longrightarrow> tie_ordered (sort_key snd xs)"
proof (induction xs)
  case Nil
  then show ?case by (simp add: tie_ordered_def)
next
  case (Cons x xs)
  have "list_all (\<lambda>y. fst x < fst y) (sort_key snd xs)"
    using Cons.prems by (auto simp: list_all_iff)
  moreover have "tie_ordered (sort_key snd xs)"
    using Cons by simp
  moreover have "sorted (map snd (sort_key snd xs))"
    by (rule sorted_sort_key)
  ultimately show ?case
    by (simp add: insort_tie_ordered)
qed

lemma tie_ordered_take: "tie_ordered xs \<Longrightarrow> tie_ordered (take n xs)"
  unfolding tie_ordered_def by (rule sorted_wrt_take)

lemma scored_increasing:
  "sorted_wrt (\<lambda>a b. fst a < fst b) (zip (map int [0..<length xs]) (map f xs))"
  by (simp add: sorted_wrt_iff_nth_less)

lemma fvec_L2sqr_nonneg: "0 \<le> fvec_L2sqr x y"
  unfolding fvec_L2sqr_def by (rule sum_list_nonneg) auto

lemma search_within_index:
  assumes "length q = ix_d ix" and "0 < k" and "nat k \<le> length (ix_xb ix)"
  shows "\<exists>hits. IndexFlatL2_search ix q k = Inr hits \<and> length hits = nat k
      \<and> tie_ordered hits
      \<and> list_all (\<lambda>hit. 0 \<le> fst hit \<and> nat (fst hit) < length (ix_xb ix)
            \<and> snd hit = fvec_L2sqr q (ix_xb ix ! nat (fst hit))) hits"
proof -
  let ?scored = "zip (map int [0..<length (ix_xb ix)]) (map (fvec_L2sqr q) (ix_xb ix))"
  let ?near = "take (nat k) (sort_key snd ?scored)"
  have res: "IndexFlatL2_search ix q k = Inr ?near"
    using assms by (simp add: IndexFlatL2_search_def Let_def min_def)
  have len: "length ?near = nat k" using assms(3) by simp
  have ord: "tie_ordered ?near"
    by (intro tie_ordered_take sort_key_tie_ordered scored_increasing)
  have "set ?near \<subseteq> set ?scored"
    by (metis set_take_subset set_sort)
  moreover have "\<forall>hit \<in> set ?scored. 0 \<le> fst hit \<and> nat (fst hit) < length (ix_xb ix)
            \<and> snd hit = fvec_L2sqr q (ix_xb ix ! nat (fst hit))"
    by (auto simp: set_zip)
  ultimately have "list_all (\<lambda>hit. 0 \<le> fst hit \<and> nat (fst hit) < length (ix_xb ix)
            \<and> snd hit = fvec_L2sqr q (ix_xb ix ! nat (fst hit))) ?near"
    unfolding list_all_iff by blast
  with res len ord show ?thesis by blast
qed

lemma as_result_score: "doc_score (as_result ts ms hit) = 1 / (1 + snd hit)"
  by (simp add: as_result_def)

lemma scores_descend:
  assumes "tie_ordered hits" and "list_all (\<lambda>hit. 0 \<le> snd hit) hits"
  shows "sorted_wrt (\<lambda>a b. doc_score b \<le> doc_score a) (map (as_result ts ms) hits)"
proof -
  have "sorted_wrt (\<lambda>a b. 1 / (1 + snd b) \<le> 1 / (1 + snd a)) hits"
    using assms(1) unfolding tie_ordered_def
  proof (rule sorted_wrt_mono_rel[rotated])
    fix a b assume "a \<in> set hits" "b \<in> set hits"
      and "snd a < snd b \<or> (snd a = snd b \<and> fst a < fst b)"
    moreover from this assms(2) have "0 \<le> snd a" "0 \<le> snd b"
      by (auto simp: list_all_iff)
    ultimately show "1 / (1 + snd b) \<le> 1 / (1 + snd a)"
      by (auto simp: frac_le)
  qed
  then show ?thesis by (simp add: sorted_wrt_map as_result_score)
qed

text \<open>
  X1. On a well-formed store, a search with a query of the index's dimension for
  \<open>1 \<le> k \<le> N\<close> results returns exactly \<open>k\<close> results, built from the \<open>k\<close> nearest
  hits of the index: each hit is a stored document with its own squared distance to the
  query, the hits are in ascending distance with ties in insertion order, the scores
  \<open>1 / (1 + d)\<close> do not increase along the results, and the first score is 1 exactly
  when the first distance is 0.
\<close>

theorem search_within_store:
  "well_formed s \<and> length q = ix_d (index s) \<and> 0 < k \<and> nat k \<le> length (texts s) \<longrightarrow>
     (\<exists>hits. similarity_search s q k = Inr (map (as_result (texts s) (metadatas s)) hits)
        \<and> length hits = nat k
        \<and> tie_ordered hits
        \<and> list_all (\<lambda>hit. 0 \<le> fst hit \<and> nat (fst hit) < length (texts s)
              \<and> snd hit = fvec_L2sqr q (ix_xb (index s) ! nat (fst hit))) hits
        \<and> sorted_wrt (\<lambda>a b. doc_score b \<le> doc_score a)
              (map (as_result (texts s) (metadatas s)) hits)
        \<and> (doc_score (as_result (texts s) (metadatas s) (hd hits)) = 1 \<longleftrightarrow> snd (hd hits) = 0))"
proof
  assume a: "well_formed s \<and> length q = ix_d (index s) \<and> 0 < k \<and> nat k \<le> length (texts s)"
  then have n: "length (ix_xb (index s)) = length (texts s)"
    and m: "length (metadatas s) = length (texts s)"
    and ne: "texts s \<noteq> []"
    by (auto simp: well_formed_def)
  obtain hits where h: "IndexFlatL2_search (index s) q k = Inr hits" "length hits = nat k"
      "tie_ordered hits"
      "list_all (\<lambda>hit. 0 \<le> fst hit \<and> nat (fst hit) < length (ix_xb (index s))
            \<and> snd hit = fvec_L2sqr q (ix_xb (index s) ! nat (fst hit))) hits"
    using search_within_index[of q "index s" k] a n by auto
  have range: "list_all (\<lambda>hit. - 1 \<le> fst hit \<and> fst hit < int (length (texts s))) hits"
    using h(4) n by (auto simp: list_all_iff)
  have nonneg: "list_all (\<lambda>hit. 0 \<le> snd hit) hits"
    using h(4) by (auto simp: list_all_iff fvec_L2sqr_nonneg)
  have res: "similarity_search s q k = Inr (map (as_result (texts s) (metadatas s)) hits)"
    using h(1) collect_results_aligned[OF ne m range] by (simp add: similarity_search_def)
  have "hits \<noteq> []" using h(2) a by auto
  then have "0 \<le> snd (hd hits)" using nonneg by (cases hits) auto
  then have top: "doc_score (as_result (texts s) (metadatas s) (hd hits)) = 1 \<longleftrightarrow> snd (hd hits) = 0"
    by (simp add: as_result_score)
  show "\<exists>hits. similarity_search s q k = Inr (map (as_result (texts s) (metadatas s)) hits)
        \<and> length hits = nat k
        \<and> tie_ordered hits
        \<and> list_all (\<lambda>hit. 0 \<le> fst hit \<and> nat (fst hit) < length (texts s)
              \<and> snd hit = fvec_L2sqr q (ix_xb (index s) ! nat (fst hit))) hits
        \<and> sorted_wrt (\<lambda>a b. doc_score b \<le> doc_score a)
              (map (as_result (texts s) (metadatas s)) hits)
        \<and> (doc_score (as_result (texts s) (metadatas s) (hd hits)) = 1 \<longleftrightarrow> snd (hd hits) = 0)"
    using res h(2,3) h(4)[unfolded n] scores_descend[OF h(3) nonneg] top by blast
qed

theorem search_within_store_witness:
  "\<exists>hits. similarity_search two_store [0] 2
             = Inr (map (as_result (texts two_store) (metadatas two_store)) hits)
      \<and> length hits = 2 \<and> tie_ordered hits"
proof -
  have "well_formed two_store \<and> length [0::real] = ix_d (index two_store) \<and> 0 < (2::int)
          \<and> nat 2 \<le> length (texts two_store)"
    by (simp add: well_formed_def two_store_def)
  with search_within_store[of two_store "[0]" 2] show ?thesis by auto
qed

text \<open>
  X2. On a non-empty well-formed store every search with a query of the index's dimension
  and a positive \<open>k\<close> returns exactly \<open>k\<close> results, also when the store holds fewer
  than \<open>k\<close> documents.
\<close>

theorem nonempty_search_returns_k:
  "texts s \<noteq> [] \<and> well_formed s \<and> length q = ix_d (index s) \<and> 0 < k
     \<longrightarrow> (\<exists>rs. similarity_search s q k = Inr rs \<and> length rs = nat k)"
  using nonempty_store_returns[of s q k] by auto

theorem nonempty_search_returns_k_witness:
  "\<exists>rs. similarity_search louvre_store [0] 5 = Inr rs \<and> length rs = 5"
proof -
  have "texts louvre_store \<noteq> [] \<and> well_formed louvre_store
          \<and> length [0::real] = ix_d (index louvre_store) \<and> 0 < (5::int)"
    by (simp add: well_formed_def louvre_store_def)
  with nonempty_search_returns_k[of louvre_store "[0]" 5] show ?thesis by auto
qed

text \<open>
  X3. On a new store, which holds nothing, every search with a query of the store's
  dimension and a positive \<open>k\<close> raises \<^verbatim>\<open>IndexError\<close>.
\<close>

theorem empty_search_raises:
  "length q = dm \<and> 0 < k \<longrightarrow> similarity_search (FAISSVectorStore_init dm) q k = Inl IndexError"
  by (simp add: empty_store_raises FAISSVectorStore_init_def)

theorem empty_search_raises_witness:
  "similarity_search (FAISSVectorStore_init 2) [1, 2] 1 = Inl IndexError"
  using empty_search_raises[of "[1, 2]" 2 1] by simp

section \<open>Loading\<close>

text \<open>
  X4. \<^verbatim>\<open>BaseRetriever.load\<close> never raises, and it answers \<^verbatim>\<open>True\<close> exactly when the
  directory exists and holds three readable files.
\<close>

theorem load_succeeds_iff:
  "fst (BaseRetriever_load fs r) \<longleftrightarrow>
     (\<exists>ix ts ms. fs (store_path r)
        = Some \<lparr>index_faiss = Valid ix, texts_json = Valid ts, metadata_json = Valid ms\<rparr>)"
proof (cases "fs (store_path r)")
  case None
  then show ?thesis by (simp add: BaseRetriever_load_def)
next
  case (Some dir)
  obtain a b c where dir: "dir = \<lparr>index_faiss = a, texts_json = b, metadata_json = c\<rparr>"
    by (cases dir) simp
  show ?thesis
    using Some dir
    by (cases a; cases b; cases c)
       (simp_all add: BaseRetriever_load_def FAISSVectorStore_load_def files_at_def read_index_def
        json_load_def)
qed

text \<open>
  X5. \<^verbatim>\<open>load_all\<close> loads each of the four retrievers from the retriever it was given,
  whatever the loads of the others answer.
\<close>

theorem load_all_each_category:
  "attractions (load_all fs m) = snd (BaseRetriever_load fs (attractions m))
   \<and> food (load_all fs m) = snd (BaseRetriever_load fs (food m))
   \<and> tips (load_all fs m) = snd (BaseRetriever_load fs (tips m))
   \<and> itineraries (load_all fs m) = snd (BaseRetriever_load fs (itineraries m))"
  by (simp add: load_all_def Let_def)

text \<open>
  X6. A load that finds the index and the texts but no metadata file answers
  \<^verbatim>\<open>False\<close> and leaves the store with the loaded index and texts and its old, empty
  metadata list; the next retrieval raises \<^verbatim>\<open>IndexError\<close>.
\<close>

theorem half_loaded_retrieval_raises:
  "BaseRetriever_load half_saved ((sample_retriever FOOD)\<lparr>vector_store := FAISSVectorStore_init 1\<rparr>)
     = (False, (sample_retriever FOOD)\<lparr>vector_store :=
          (FAISSVectorStore_init 1)\<lparr>index := index sample_store, texts := texts sample_store\<rparr>\<rparr>)
   \<and> retrieve (\<lambda>q. [0])
        ((sample_retriever FOOD)\<lparr>vector_store :=
          (FAISSVectorStore_init 1)\<lparr>index := index sample_store, texts := texts sample_store\<rparr>\<rparr>)
        ''Paris'' 10 None = Inl IndexError"
  by (simp add: BaseRetriever_load_def half_saved_def sample_retriever_def BaseRetriever_init_def
      FAISSVectorStore_load_def files_at_def read_index_def json_load_def retrieve_def
      similarity_search_def IndexFlatL2_search_def sample_store_def FAISSVectorStore_init_def
      fvec_L2sqr_def py_getitem_def)

section \<open>The nodes and the graph\<close>

text \<open>
  X7. With an embedding model of the configured dimension, every run of the graph that
  the module builds raises \<^verbatim>\<open>IndexError\<close>, whatever the request.
\<close>

theorem unloaded_graph_raises:
  "(\<forall>q. length (embed_text rt q) = embedding_dimension)
     \<longrightarrow> invoke rt planner_graph (initial_state prefs) = Inl IndexError"
  by (simp add: invoke_def workflow_raises)

theorem unloaded_graph_raises_witness:
  "invoke zero_runtime planner_graph (initial_state plain_preferences) = Inl IndexError"
proof -
  have "\<forall>q. length (embed_text zero_runtime q) = embedding_dimension"
    by (simp add: zero_runtime_def)
  with unloaded_graph_raises[of zero_runtime plain_preferences] show ?thesis by blast
qed

text \<open>
  X8. The intent analysis of the Paris request: a duration of three days, all four
  sources, an attraction filter with the price bound 10 and the required tags
  \<^verbatim>\<open>art\<close> and \<^verbatim>\<open>food\<close>, and the priorities cost, proximity and culinary.
\<close>

theorem paris_intent_analysis:
  "IntentAnalyzerNode_call (apply_writes Map.empty (channel_writes (initial_state paris_preferences)))
     = Inr [(''parsed_intent'', VIntent (parse_intent paris_preferences)),
            (''retrieval_strategy'', VStrategy paris_strategy),
            (''errors'', VStrs []), (''warnings'', VStrs [])]
   \<and> pi_duration_days (parse_intent paris_preferences) = 3
   \<and> sources paris_strategy = [ATTRACTIONS, FOOD, TIPS, ITINERARIES]
   \<and> map_of (strategy_filters paris_strategy) ATTRACTIONS
       = Some (no_filters\<lparr>f_max_price := Some 10, f_required_tags := Some [''art'', ''food'']\<rparr>)
   \<and> priority paris_strategy = [''cost'', ''proximity'', ''culinary'']"
  by (simp add: initial_channels IntentAnalyzerNode_call_def get_preferences_def paris_strategy_def
      parse_intent_def duration_paris determine_sources_def build_filters_def paris_filters
      determine_priority_def paris_fields)

text \<open>
  X9. Every aggregated context starts with the heading \<^verbatim>\<open>## Trip Planning Context\<close>
  and a line break.
\<close>

theorem context_heading:
  "prefix (''## Trip Planning Context'' @ newline)
     (build_context_string rd attrs fd tps its preferences)"
  by (simp add: build_context_string_def)

text \<open>
  X10. With retriever nodes whose stores hold a matching document, the run on the Paris
  request returns: the final state holds the parsed intent, the strategy, the attractions
  and the aggregated context, and no itineraries, which the aggregation took for empty.
\<close>

theorem loaded_graph_paris_run:
  "\<exists>st. invoke unit_runtime (build_planning_graph sample_nodes) (initial_state paris_preferences)
           = Inr st
      \<and> st ''parsed_intent'' = Some (VIntent (parse_intent paris_preferences))
      \<and> st ''retrieval_strategy'' = Some (VStrategy paris_strategy)
      \<and> st ''attractions_context'' = Some (VDocs sample_results)
      \<and> st ''itinerary_context'' = None
      \<and> st ''aggregated_context''
          = Some (VStr (build_context_string plain_rendering sample_results sample_results
                          sample_results [] paris_preferences))"
proof -
  let ?st0 = "apply_writes Map.empty (channel_writes (initial_state paris_preferences))"
  have "run_graph unit_runtime (build_planning_graph sample_nodes) (initial_state paris_preferences) =
     Inr (?st0(''parsed_intent'' \<mapsto> VIntent (parse_intent paris_preferences),
              ''retrieval_strategy'' \<mapsto> VStrategy paris_strategy,
              ''errors'' \<mapsto> (case ?st0 ''errors'' of None \<Rightarrow> VStrs [] | Some v \<Rightarrow> v),
              ''warnings'' \<mapsto> (case ?st0 ''warnings'' of None \<Rightarrow> VStrs [] | Some v \<Rightarrow> v),
              ''attractions_context'' \<mapsto> VDocs sample_results,
              ''food_context'' \<mapsto> VDocs sample_results,
              ''tips_context'' \<mapsto> VDocs sample_results,
              ''aggregated_context'' \<mapsto>
                 VStr (build_context_string plain_rendering sample_results sample_results
                         sample_results [] paris_preferences)),
          [[''analyze_intent''], retriever_names, [''aggregate_context'']])"
    by (rule sample_run) (simp_all add: initial_channels)
  then show ?thesis
    by (simp add: invoke_def initial_channels)
qed

text \<open>
  X11. A retriever node that returns writes exactly one key, the key of its source; that
  key is among the keys the aggregation reads exactly for the attractions, the food and
  the tips, and it is a declared key of the state for every source but the itineraries.
\<close>

theorem retriever_node_single_key:
  "(ParallelRetrieverNode_call embed_fn n st = Inr update
      \<longrightarrow> map fst update = [context_key (node_source n)])
   \<and> (context_key src \<in> set aggregated_keys \<longleftrightarrow> src \<in> {ATTRACTIONS, FOOD, TIPS})
   \<and> (context_key src \<in> set PlannerState_keys \<longleftrightarrow> src \<noteq> ITINERARIES)"
proof (intro conjI impI)
  assume "ParallelRetrieverNode_call embed_fn n st = Inr update"
  then show "map fst update = [context_key (node_source n)]"
    by (auto simp: ParallelRetrieverNode_call_def Let_def
        split: option.splits pyval.splits sum.splits)
next
  show "(context_key src \<in> set aggregated_keys) = (src \<in> {ATTRACTIONS, FOOD, TIPS})"
    by (cases src) (simp_all add: context_keys aggregated_keys_def)
  show "(context_key src \<in> set PlannerState_keys) = (src \<noteq> ITINERARIES)"
    by (cases src) (simp_all add: context_keys PlannerState_keys_def)
qed

theorem retriever_node_single_key_witness:
  "map fst [(context_key FOOD, VDocs sample_results)] = [''food_context'']"
proof -
  have call: "ParallelRetrieverNode_call (\<lambda>q. [0]) (sample_node FOOD) (analyzed_state paris_preferences)
       = Inr [(context_key FOOD, VDocs sample_results)]"
    using sample_node_call[of "analyzed_state paris_preferences" FOOD]
    by (simp add: analyzed_state_def paris_strategy_def)
  from retriever_node_single_key[of "\<lambda>q. [0]" "sample_node FOOD" "analyzed_state paris_preferences"
      "[(context_key FOOD, VDocs sample_results)]" FOOD] call
  show ?thesis by (simp add: sample_node_def context_keys)
qed

section \<open>The food filter, further\<close>

text \<open>
  X12. With the tier \<^verbatim>\<open>BUDGET\<close> the budget test keeps the two cheap bands only: a
  place whose stored band is none of the three of the schema, here \<^verbatim>\<open>$\<close>, is
  skipped as well.
\<close>

theorem budget_filter_outside_schema:
  "FoodRetriever_apply_filters [bistro ''$''] (budget_only BUDGET) = []
   \<and> price_range_of (doc_metadata (bistro ''$'')) \<noteq> euro @ euro @ euro"
  by (simp add: FoodRetriever_apply_filters_def food_passes_def bistro_def budget_only_def
      no_filters_def lacks_dietary_option_def outside_budget_def price_range_of_def euro_def)

text \<open>
  X13. The intent analysis always puts the key \<^verbatim>\<open>dietary_restrictions\<close> into
  the food filter record, bound to the user's restrictions. When these are empty the food
  filter rejects every candidate; a food retrieval then never returns a document, and on
  a non-empty well-formed index (query of the index's dimension, \<open>k\<close> positive) it returns
  the empty sequence.
\<close>

theorem empty_dietary_rejects_all:
  "map_of (build_filters prefs) FOOD = Some (food_filters_of prefs)
   \<and> f_dietary_restrictions (food_filters_of prefs) = Some (dietary_restrictions prefs)
   \<and> (dietary_restrictions prefs = [] \<longrightarrow>
        FoodRetriever_apply_filters results (food_filters_of prefs) = []
        \<and> (source_type r = FOOD \<and> retrieve embed_fn r q k (Some (food_filters_of prefs)) = Inr rs
             \<longrightarrow> rs = [])
        \<and> (source_type r = FOOD \<and> texts (vector_store r) \<noteq> [] \<and> well_formed (vector_store r)
             \<and> length (embed_fn q) = ix_d (index (vector_store r)) \<and> 0 < k
             \<longrightarrow> retrieve embed_fn r q k (Some (food_filters_of prefs)) = Inr []))"
proof (intro conjI impI)
  show "map_of (build_filters prefs) FOOD = Some (food_filters_of prefs)"
    by (simp add: build_filters_def)
  show "f_dietary_restrictions (food_filters_of prefs) = Some (dietary_restrictions prefs)"
    by (simp add: food_filters_of_def)
next
  assume "dietary_restrictions prefs = []"
  then show "FoodRetriever_apply_filters results (food_filters_of prefs) = []"
    by (rule food_filter_rejects_all)
next
  assume d: "dietary_restrictions prefs = []"
    and "source_type r = FOOD \<and> retrieve embed_fn r q k (Some (food_filters_of prefs)) = Inr rs"
  then show "rs = []"
    by (auto simp: retrieve_food_cases split: sum.splits)
next
  assume d: "dietary_restrictions prefs = []"
    and a: "source_type r = FOOD \<and> texts (vector_store r) \<noteq> [] \<and> well_formed (vector_store r)
             \<and> length (embed_fn q) = ix_d (index (vector_store r)) \<and> 0 < k"
  then obtain results where "similarity_search (vector_store r) (embed_fn q) (k * 2) = Inr results"
    using nonempty_store_returns[of "vector_store r" "embed_fn q" "k * 2"] by auto
  then show "retrieve embed_fn r q k (Some (food_filters_of prefs)) = Inr []"
    using a d by (simp add: retrieve_food_cases)
qed

theorem empty_dietary_rejects_all_witness:
  "FoodRetriever_apply_filters [bistro euro] (food_filters_of plain_preferences) = []
   \<and> retrieve (\<lambda>q. [0]) (sample_retriever FOOD) ''Paris'' 10
        (Some (food_filters_of plain_preferences)) = Inr []"
proof -
  have d: "dietary_restrictions plain_preferences = []"
    by (simp add: plain_preferences_def)
  have r: "source_type (sample_retriever FOOD) = FOOD
             \<and> texts (vector_store (sample_retriever FOOD)) \<noteq> []
             \<and> well_formed (vector_store (sample_retriever FOOD))
             \<and> length ((\<lambda>q. [0::real]) ''Paris'') = ix_d (index (vector_store (sample_retriever FOOD)))
             \<and> 0 < (10::int)"
    by (simp add: sample_retriever_def BaseRetriever_init_def sample_store_def well_formed_def)
  from empty_dietary_rejects_all[of plain_preferences "[bistro euro]" "sample_retriever FOOD"
      "\<lambda>q. [0]" "''Paris''" 10 rs] d r
  show ?thesis by blast
qed

end
